theory Spec2Isabelle
  imports Complex_Main
begin

section \<open>Strings as the bridge sees them\<close>

text \<open>
  The bridge is a Python 3 program; its strings are sequences of code points.  A
  character is modelled by \<^typ>\<open>char\<close>, read as a code point below 256 (the ASCII
  range the controller protocol uses, and the Latin-1 letters above it).  The
  classifications below are the ones the Python runtime applies to these code points:
  \<open>str.isspace\<close> (used alike by \<open>str.strip\<close> and by the pattern class \<open>\s\<close>), the
  decimal digits of \<open>\d\<close>, and the word characters of \<open>\w\<close> (alphanumeric or underscore).
\<close>

definition ord :: "char \<Rightarrow> nat" where
  "ord c = of_char c"

definition is_space :: "char \<Rightarrow> bool" where
  "is_space c = ((9 \<le> ord c \<and> ord c \<le> 13) \<or> (28 \<le> ord c \<and> ord c \<le> 32)
                 \<or> ord c = 133 \<or> ord c = 160)"

definition is_digit :: "char \<Rightarrow> bool" where
  "is_digit c = (48 \<le> ord c \<and> ord c \<le> 57)"

definition is_alpha :: "char \<Rightarrow> bool" where
  "is_alpha c = ((65 \<le> ord c \<and> ord c \<le> 90) \<or> (97 \<le> ord c \<and> ord c \<le> 122)
                 \<or> ord c = 170 \<or> ord c = 181 \<or> ord c = 186
                 \<or> (192 \<le> ord c \<and> ord c \<le> 214) \<or> (216 \<le> ord c \<and> ord c \<le> 246)
                 \<or> 248 \<le> ord c)"

definition is_numeric :: "char \<Rightarrow> bool" where
  "is_numeric c = (is_digit c \<or> ord c = 178 \<or> ord c = 179 \<or> ord c = 185
                   \<or> (188 \<le> ord c \<and> ord c \<le> 190))"

definition is_alnum :: "char \<Rightarrow> bool" where
  "is_alnum c = (is_alpha c \<or> is_numeric c)"

definition is_word :: "char \<Rightarrow> bool" where
  "is_word c = (is_alnum c \<or> c = CHR ''_'')"

definition strip :: "string \<Rightarrow> string" where
  "strip s = rev (dropWhile is_space (rev (dropWhile is_space s)))"

definition startswith :: "string \<Rightarrow> string \<Rightarrow> bool" where
  "startswith s p = (take (length p) s = p)"

fun str_contains :: "string \<Rightarrow> string \<Rightarrow> bool" where
  "str_contains sub [] = (sub = [])"
| "str_contains sub (c # cs) = (startswith (c # cs) sub \<or> str_contains sub cs)"

text \<open>
  \<open>text.split(sep)\<close> for a separator of one character.  The result is never the
  empty list, so the first branch of the \<open>case\<close> is never taken.
\<close>

fun split_chr :: "char \<Rightarrow> string \<Rightarrow> string list" where
  "split_chr sep [] = [[]]"
| "split_chr sep (c # cs) =
     (if c = sep then [] # split_chr sep cs
      else (case split_chr sep cs of
              [] \<Rightarrow> [[c]]
            | line # lines \<Rightarrow> (c # line) # lines))"

section \<open>SecurityValidator\<close>

definition backslash :: char where
  "backslash = CHR 0x5C"

definition isabs :: "string \<Rightarrow> bool" where
  "isabs s = startswith s ''/''"

definition validate_filename :: "string \<Rightarrow> bool" where
  "validate_filename filename =
     (if filename = [] then False
      else if str_contains ''..'' filename \<or> startswith filename ''/'' \<or> backslash \<in> set filename
        then False
      else if isabs filename then False
      else if length filename > 255 then False
      else True)"

definition gcode_char_allowed :: "char \<Rightarrow> bool" where
  "gcode_char_allowed c =
     (is_word c \<or> is_space c \<or> c = CHR ''.'' \<or> c = CHR ''-'' \<or> c = CHR ''+''
      \<or> c = CHR ''='' \<or> c = CHR '':'')"

definition sanitize_gcode :: "string \<Rightarrow> string" where
  "sanitize_gcode gcode =
     (if gcode = [] then []
      else let sanitized = filter gcode_char_allowed (strip gcode)
           in if length sanitized > 1000 then take 1000 sanitized else sanitized)"


section \<open>Exceptions, JSON values and the environment\<close>

text \<open>
  A raised exception is a value: its class and its message (\<open>str(e)\<close>).  Every
  operation that mutates an object returns the pair of its outcome and the object after
  the call, so that what was mutated before a \<open>raise\<close> stays mutated.
  Logging calls are left out: they neither return a value nor change the state the
  claims talk about.
\<close>

datatype exn_class = ClientError | TimeoutError | SerialException | IndexError | KeyError
  | TypeError | AttributeError | ValueError | OtherException

datatype py_error = Raised exn_class string

fun str_of_error :: "py_error \<Rightarrow> string" where
  "str_of_error (Raised cls msg) = msg"

datatype json = JNull | JBool bool | JNum real | JStr string | JArr "json list"
  | JObj "(string \<times> json) list"

text \<open>\<open>key in v\<close>, \<open>v[key]\<close>, \<open>v.get(key, default)\<close> and \<open>v.keys()\<close> for a string key.\<close>

fun json_contains :: "string \<Rightarrow> json \<Rightarrow> py_error + bool" where
  "json_contains k (JObj kvs) = Inr (map_of kvs k \<noteq> None)"
| "json_contains k (JStr t) = Inr (str_contains k t)"
| "json_contains k (JArr vs) = Inr (JStr k \<in> set vs)"
| "json_contains k v = Inl (Raised TypeError ''argument is not iterable'')"

fun json_getitem :: "json \<Rightarrow> string \<Rightarrow> py_error + json" where
  "json_getitem (JObj kvs) k =
     (case map_of kvs k of None \<Rightarrow> Inl (Raised KeyError k) | Some v \<Rightarrow> Inr v)"
| "json_getitem v k = Inl (Raised TypeError ''indices must be integers'')"

fun json_get :: "json \<Rightarrow> string \<Rightarrow> json \<Rightarrow> py_error + json" where
  "json_get (JObj kvs) k d = (case map_of kvs k of None \<Rightarrow> Inr d | Some v \<Rightarrow> Inr v)"
| "json_get v k d = Inl (Raised AttributeError ''object has no attribute get'')"

fun json_keys :: "json \<Rightarrow> py_error + string list" where
  "json_keys (JObj kvs) = Inr (remdups (map fst kvs))"
| "json_keys v = Inl (Raised AttributeError ''object has no attribute keys'')"

datatype http_outcome = Response json | Failed py_error

datatype io_outcome = Done | IOFailed py_error

text \<open>
  What the program cannot decide itself is read from an environment: the outcome of the
  \<open>k\<close>-th HTTP exchange (for the method, URL and body sent; a response carries the
  decoded body, whatever JSON value it is), the outcome of the \<open>k\<close>-th write to the
  serial device, the \<open>k\<close>-th reading of the wall clock, and three functions of the
  runtime: \<open>urljoin(base, url)\<close> of the standard library, which raises ValueError on
  a URL it cannot parse, and the two conversions a reply is built with (\<open>str(v)\<close> and
  the format \<open>{v:.1f}\<close>, which raises on a value that is not a number).
\<close>

record env =
  http :: "nat \<Rightarrow> string \<Rightarrow> string \<Rightarrow> json option \<Rightarrow> http_outcome"
  serial_write :: "nat \<Rightarrow> string \<Rightarrow> io_outcome"
  clock :: "nat \<Rightarrow> real"
  urljoin :: "string \<Rightarrow> string \<Rightarrow> py_error + string"
  py_str :: "json \<Rightarrow> string"
  format_1f :: "json \<Rightarrow> py_error + string"

text \<open>
  A coroutine is a function from the state before the call to its outcome and the
  state after it; \<open>then_run\<close> is sequencing, \<open>try_except\<close> is
  \<open>try: ... except Exception: ...\<close> (every modelled exception is an \<open>Exception\<close>).
\<close>

type_synonym ('a, 'st) coroutine = "'st \<Rightarrow> (py_error + 'a) \<times> 'st"

definition returns :: "'a \<Rightarrow> ('a, 'st) coroutine" where
  "returns x s = (Inr x, s)"

definition evaluates :: "py_error + 'a \<Rightarrow> ('a, 'st) coroutine" where
  "evaluates r s = (r, s)"

definition then_run :: "('a, 'st) coroutine \<Rightarrow> ('a \<Rightarrow> ('b, 'st) coroutine) \<Rightarrow> ('b, 'st) coroutine" where
  "then_run m f s = (case m s of (Inl err, s') \<Rightarrow> (Inl err, s') | (Inr x, s') \<Rightarrow> f x s')"

definition try_except :: "('a, 'st) coroutine \<Rightarrow> (py_error \<Rightarrow> ('a, 'st) coroutine) \<Rightarrow> ('a, 'st) coroutine" where
  "try_except m handler s = (case m s of (Inl err, s') \<Rightarrow> handler err s' | (Inr x, s') \<Rightarrow> (Inr x, s'))"

section \<open>RateLimiter\<close>

record rate_limiter =
  max_requests :: int
  time_window :: real
  requests :: "real list"

text \<open>
  \<open>acquire\<close> with \<open>now\<close> the value \<open>time.time()\<close> returned at its first line.  The
  result says how long the call slept (\<open>None\<close>: not at all).  \<open>self.requests[0]\<close> on
  an empty deque raises IndexError.
\<close>

definition acquire :: "real \<Rightarrow> rate_limiter \<Rightarrow> (py_error + real option) \<times> rate_limiter" where
  "acquire now rl =
     (let evicted = dropWhile (\<lambda>t. t < now - time_window rl) (requests rl)
      in if int (length evicted) \<ge> max_requests rl then
           (case evicted of
              [] \<Rightarrow> (Inl (Raised IndexError ''deque index out of range''),
                     rl\<lparr>requests := evicted\<rparr>)
            | oldest # rest \<Rightarrow>
                (let sleep_time = time_window rl - (now - oldest)
                 in if sleep_time > 0
                    then (Inr (Some sleep_time), rl\<lparr>requests := rest @ [now]\<rparr>)
                    else (Inr None, rl\<lparr>requests := evicted @ [now]\<rparr>)))
         else (Inr None, rl\<lparr>requests := evicted @ [now]\<rparr>))"

text \<open>
  The steps as the specification words them: evict every timestamp older than
  \<open>now - W\<close>; if the window then holds \<open>N\<close> entries, wait until the oldest leaves the
  window and evict it; record the time at which the entry is recorded, after any wait.
\<close>

definition acquire_as_specified :: "real \<Rightarrow> rate_limiter \<Rightarrow> real option \<times> rate_limiter" where
  "acquire_as_specified now rl =
     (let kept = filter (\<lambda>t. \<not> t < now - time_window rl) (requests rl)
      in if int (length kept) = max_requests rl \<and> kept \<noteq> [] then
           (let wait = time_window rl - (now - hd kept)
            in (Some wait, rl\<lparr>requests := tl kept @ [now + wait]\<rparr>))
         else (None, rl\<lparr>requests := kept @ [now]\<rparr>))"


section \<open>MoonrakerClient\<close>

text \<open>
  \<open>str.upper\<close>: the ASCII and Latin-1 small letters move to their capitals and the
  sharp s becomes \<open>SS\<close>.  The two letters whose capital lies beyond code point 255
  (U+00B5, U+00FF) are left in place: their capitals are not ASCII either, so no
  comparison with the ASCII literals of this program tells the difference.
\<close>

definition upper_chr :: "char \<Rightarrow> string" where
  "upper_chr c =
     (if (97 \<le> ord c \<and> ord c \<le> 122) \<or> (224 \<le> ord c \<and> ord c \<le> 254 \<and> ord c \<noteq> 247)
        then [char_of (ord c - 32)]
      else if ord c = 223 then ''SS''
      else [c])"

definition upper :: "string \<Rightarrow> string" where
  "upper s = concat (map upper_chr s)"

text \<open>
  The client with what its methods read and change: the configuration values, the
  base URL \<open>f"http://{host}:{port}"\<close> its constructor builds from them, the rate
  limiter, the counter of the test-mode handler, and two counters that number the
  clock readings and the HTTP exchanges made so far.
\<close>

record moonraker_client =
  base_url :: string
  test_mode :: bool
  max_retries :: int
  retry_delay :: real
  rate_limiter :: rate_limiter
  command_count :: nat
  clock_reads :: nat
  http_count :: nat

text \<open>
  The body of the retry loop of \<open>_make_request\<close>, over the attempts still to run.
  An exchange covers everything inside the \<open>try\<close>: opening the session if it is
  closed, the request, \<open>raise_for_status\<close> and the decoding of the body, which is
  returned as it is decoded: nothing checks that it is a dictionary.  A method other
  than GET or POST sends nothing and the loop moves on.  The sleep between attempts
  only lets time pass.
\<close>

fun request_attempts ::
  "env \<Rightarrow> string \<Rightarrow> string \<Rightarrow> json option \<Rightarrow> nat list \<Rightarrow> moonraker_client
   \<Rightarrow> (py_error + json) \<times> moonraker_client" where
  "request_attempts e method url data [] c =
     (Inr (JObj [(''error'', JStr ''Max retries exceeded'')]), c)"
| "request_attempts e method url data (attempt # rest) c =
     (if upper method = ''GET'' \<or> upper method = ''POST'' then
        (case http e (http_count c) method url
                (if upper method = ''GET'' then None else data) of
           Response body \<Rightarrow> (Inr body, c\<lparr>http_count := Suc (http_count c)\<rparr>)
         | Failed (Raised cls msg) \<Rightarrow>
             if cls = ClientError \<or> cls = TimeoutError then
               (if int attempt < max_retries c - 1
                then request_attempts e method url data rest
                       (c\<lparr>http_count := Suc (http_count c)\<rparr>)
                else (Inl (Raised cls msg), c\<lparr>http_count := Suc (http_count c)\<rparr>))
             else (Inl (Raised cls msg), c\<lparr>http_count := Suc (http_count c)\<rparr>))
      else request_attempts e method url data rest c)"

text \<open>
  \<open>_make_request\<close>: the rate limiter first, then
  \<open>url = urljoin(self.base_url, endpoint)\<close>, which stands outside every \<open>try\<close> and
  whose ValueError leaves the method, then \<open>range(max_retries)\<close> attempts.
\<close>

definition make_request ::
  "env \<Rightarrow> string \<Rightarrow> string \<Rightarrow> json option \<Rightarrow> moonraker_client
   \<Rightarrow> (py_error + json) \<times> moonraker_client" where
  "make_request e method endpoint data c =
     (case acquire (clock e (clock_reads c)) (rate_limiter c) of
        (Inl err, rl) \<Rightarrow>
          (Inl err, c\<lparr>rate_limiter := rl, clock_reads := Suc (clock_reads c)\<rparr>)
      | (Inr slept, rl) \<Rightarrow>
          (case urljoin e (base_url c) endpoint of
             Inl err \<Rightarrow>
               (Inl err, c\<lparr>rate_limiter := rl, clock_reads := Suc (clock_reads c)\<rparr>)
           | Inr url \<Rightarrow>
               request_attempts e method url data [0 ..< nat (max_retries c)]
                 (c\<lparr>rate_limiter := rl, clock_reads := Suc (clock_reads c)\<rparr>)))"

text \<open>
  The seven operations have one shape,
  \<open>try: ... except Exception as e: return {"error": str(e)}\<close>;
  \<open>except_error_dict\<close> is that handler around the body of the \<open>try\<close>.
\<close>

definition error_dict :: "py_error \<Rightarrow> json" where
  "error_dict err = JObj [(''error'', JStr (str_of_error err))]"

definition except_error_dict :: "(json, 'st) coroutine \<Rightarrow> (json, 'st) coroutine" where
  "except_error_dict body = try_except body (\<lambda>err. returns (error_dict err))"

definition log_command :: "moonraker_client \<Rightarrow> moonraker_client" where
  "log_command c = c\<lparr>command_count := command_count c + 1\<rparr>"

definition send_gcode :: "env \<Rightarrow> string \<Rightarrow> (json, moonraker_client) coroutine" where
  "send_gcode e gcode =
     except_error_dict
       (\<lambda>c. let sanitized_gcode = sanitize_gcode gcode
            in if sanitized_gcode = [] then
                 (Inr (JObj [(''error'', JStr ''Invalid or empty G-code'')]), c)
               else if test_mode c then
                 (Inr (JObj [(''result'', JStr ''ok''), (''test_mode'', JBool True)]),
                  log_command c)
               else make_request e ''POST'' ''/printer/gcode/script''
                      (Some (JObj [(''script'', JStr sanitized_gcode)])) c)"

definition get_printer_status :: "env \<Rightarrow> (json, moonraker_client) coroutine" where
  "get_printer_status e =
     except_error_dict
       (\<lambda>c. if test_mode c then
              (Inr (JObj [(''result'', JObj [(''status'', JObj
                       [(''extruder'', JObj [(''temperature'', JNum 25), (''target'', JNum 0)]),
                        (''heater_bed'', JObj [(''temperature'', JNum 24), (''target'', JNum 0)])])]),
                    (''test_mode'', JBool True)]), c)
            else make_request e ''GET''
                   ''/printer/objects/query?extruder&heater_bed&fan&toolhead&print_stats'' None c)"

definition get_printer_info :: "env \<Rightarrow> (json, moonraker_client) coroutine" where
  "get_printer_info e = except_error_dict (make_request e ''GET'' ''/printer/info'' None)"

definition start_print :: "env \<Rightarrow> string \<Rightarrow> (json, moonraker_client) coroutine" where
  "start_print e filename =
     except_error_dict
       (\<lambda>c. if \<not> validate_filename filename then
              (Inr (JObj [(''error'', JStr ''Invalid filename - potential security risk'')]), c)
            else make_request e ''POST'' ''/printer/print/start''
                   (Some (JObj [(''filename'', JStr filename)])) c)"

definition pause_print :: "env \<Rightarrow> (json, moonraker_client) coroutine" where
  "pause_print e = except_error_dict (make_request e ''POST'' ''/printer/print/pause'' None)"

definition resume_print :: "env \<Rightarrow> (json, moonraker_client) coroutine" where
  "resume_print e = except_error_dict (make_request e ''POST'' ''/printer/print/resume'' None)"

definition cancel_print :: "env \<Rightarrow> (json, moonraker_client) coroutine" where
  "cancel_print e = except_error_dict (make_request e ''POST'' ''/printer/print/cancel'' None)"

section \<open>Patterns\<close>

text \<open>
  The patterns of the translator are sequences of single-character classes, each taken
  once or under \<open>?\<close>, \<open>*\<close> or \<open>+\<close>, with capture groups that do not nest.  They are
  matched the way \<open>re.match(pattern, text, re.IGNORECASE)\<close> matches them: anchored at
  the start of the text, not at its end, every repetition greedy and giving back one
  character at a time when what follows fails.
\<close>

datatype cclass = Lit char | Space | Digit | AnyChar | OneOf string | Range char char

definition lower_ascii :: "char \<Rightarrow> char" where
  "lower_ascii c = (if 65 \<le> ord c \<and> ord c \<le> 90 then char_of (ord c + 32) else c)"

fun in_class :: "cclass \<Rightarrow> char \<Rightarrow> bool" where
  "in_class (Lit a) c = (lower_ascii c = lower_ascii a)"
| "in_class Space c = is_space c"
| "in_class Digit c = is_digit c"
| "in_class AnyChar c = (c \<noteq> CHR 0x0A)"
| "in_class (OneOf cs) c = (c \<in> set cs)"
| "in_class (Range lo hi) c = (ord lo \<le> ord c \<and> ord c \<le> ord hi)"

text \<open>
  \<open>Rep cl lo hi\<close> is the class \<open>cl\<close> repeated between \<open>lo\<close> and \<open>hi\<close> times
  (\<open>None\<close>: unbounded); \<open>GOpen\<close> and \<open>GClose\<close> are the parentheses of a group.
\<close>

datatype item = Rep cclass nat "nat option" | GOpen | GClose

definition once :: "cclass \<Rightarrow> item" where "once cl = Rep cl 1 (Some 1)"
definition opt :: "cclass \<Rightarrow> item" where "opt cl = Rep cl 0 (Some 1)"
definition star :: "cclass \<Rightarrow> item" where "star cl = Rep cl 0 None"
definition plus1 :: "cclass \<Rightarrow> item" where "plus1 cl = Rep cl 1 None"
definition lits :: "string \<Rightarrow> item list" where "lits s = map (\<lambda>c. once (Lit c)) s"

primrec first_some :: "('b \<Rightarrow> 'a option) \<Rightarrow> 'b list \<Rightarrow> 'a option" where
  "first_some f [] = None"
| "first_some f (k # ks) = (case f k of Some r \<Rightarrow> Some r | None \<Rightarrow> first_some f ks)"

text \<open>
  \<open>rmatch items text pos\<close>: the first way, in the order the backtracking matcher
  tries them, in which \<open>items\<close> match a prefix of \<open>text\<close>, which begins at offset
  \<open>pos\<close> of the subject.  The result lists the offsets at which the group parentheses
  were passed.
\<close>

primrec rmatch :: "item list \<Rightarrow> string \<Rightarrow> nat \<Rightarrow> nat list option" where
  "rmatch [] text pos = Some []"
| "rmatch (it # rest) text pos =
     (case it of
        GOpen \<Rightarrow> map_option (Cons pos) (rmatch rest text pos)
      | GClose \<Rightarrow> map_option (Cons pos) (rmatch rest text pos)
      | Rep cl lo hi \<Rightarrow>
          (let avail = length (takeWhile (in_class cl) text);
               most = (case hi of None \<Rightarrow> avail | Some h \<Rightarrow> min h avail)
           in first_some (\<lambda>k. rmatch rest (drop k text) (pos + k)) (rev [lo ..< Suc most])))"

fun spans :: "string \<Rightarrow> nat list \<Rightarrow> string list" where
  "spans text (a # b # marks) = take (b - a) (drop a text) # spans text marks"
| "spans text marks = []"

text \<open>A match object is the list of its captured groups.\<close>

definition re_match :: "item list \<Rightarrow> string \<Rightarrow> string list option" where
  "re_match pattern text = map_option (spans text) (rmatch pattern text 0)"

definition group :: "string list \<Rightarrow> nat \<Rightarrow> py_error + string" where
  "group m k = (if 1 \<le> k \<and> k \<le> length m then Inr (m ! (k - 1))
                else Inl (Raised IndexError ''no such group''))"

text \<open>An f-string: literal pieces and interpolated values, the first failure raised.\<close>

fun fmt :: "(py_error + string) list \<Rightarrow> py_error + string" where
  "fmt [] = Inr []"
| "fmt (Inl err # ps) = Inl err"
| "fmt (Inr s # ps) = (case fmt ps of Inl err \<Rightarrow> Inl err | Inr t \<Rightarrow> Inr (s @ t))"

section \<open>GCodeTranslator\<close>

datatype action = StaticCommand string | Transform "string list \<Rightarrow> py_error + string"

text \<open>\<open>[+-]?\d*\.?\d+\<close>, the number after Z.\<close>

definition signed_number :: "item list" where
  "signed_number = [opt (OneOf ''+-''), star Digit, opt (Lit CHR ''.''), plus1 Digit]"

definition translations_tbl :: "(item list \<times> action) list" where
  "translations_tbl =
   [(lits ''M420'' @ [plus1 Space] @ lits ''S1'', StaticCommand ''BED_MESH_PROFILE LOAD=default''),
    (lits ''M420'' @ [plus1 Space] @ lits ''S0'', StaticCommand ''BED_MESH_CLEAR''),
    (lits ''G29'', StaticCommand ''BED_MESH_CALIBRATE''),
    (lits ''M421'' @ [plus1 Space] @ lits ''I'' @ [GOpen, plus1 Digit, GClose] @ [plus1 Space]
       @ lits ''J'' @ [GOpen, plus1 Digit, GClose] @ [plus1 Space]
       @ lits ''Z'' @ [GOpen] @ signed_number @ [GClose],
     Transform (\<lambda>m. fmt [Inr ''BED_MESH_CALIBRATE MESH_MIN='', group m 1, Inr '','', group m 2,
                          Inr '' MESH_MAX='', group m 1, Inr '','', group m 2])),
    (lits ''M303'' @ [plus1 Space] @ lits ''E0'' @ [plus1 Space] @ lits ''C8'' @ [plus1 Space]
       @ lits ''U1'', StaticCommand ''PID_CALIBRATE HEATER=extruder''),
    (lits ''M303'' @ [plus1 Space] @ lits ''E-1'' @ [plus1 Space] @ lits ''C8'' @ [plus1 Space]
       @ lits ''U1'', StaticCommand ''PID_CALIBRATE HEATER=heater_bed''),
    (lits ''M280'' @ [plus1 Space] @ lits ''P0'' @ [plus1 Space] @ lits ''S10'',
     StaticCommand ''BLTOUCH_DEBUG COMMAND=pin_down''),
    (lits ''M280'' @ [plus1 Space] @ lits ''P0'' @ [plus1 Space] @ lits ''S90'',
     StaticCommand ''BLTOUCH_DEBUG COMMAND=pin_up''),
    (lits ''M280'' @ [plus1 Space] @ lits ''P0'' @ [plus1 Space] @ lits ''S160'',
     StaticCommand ''BLTOUCH_DEBUG COMMAND=reset''),
    (lits ''M401'', StaticCommand ''PROBE_CALIBRATE''),
    (lits ''M48'', StaticCommand ''PROBE_ACCURACY''),
    (lits ''M701'', StaticCommand ''LOAD_FILAMENT''),
    (lits ''M702'', StaticCommand ''UNLOAD_FILAMENT''),
    (lits ''M500'', StaticCommand ''SAVE_CONFIG''),
    (lits ''M503'', StaticCommand ''# Settings saved in printer.cfg''),
    (lits ''M851'' @ [plus1 Space] @ lits ''Z'' @ [GOpen] @ signed_number @ [GClose],
     Transform (\<lambda>m. fmt [Inr ''SET_GCODE_OFFSET Z='', group m 1, Inr '' MOVE=1'']))]"

definition passthrough_patterns :: "item list list" where
  "passthrough_patterns =
   [lits ''G'' @ [once (OneOf ''01''), plus1 Space, star AnyChar],
    lits ''G28'' @ [star AnyChar],
    lits ''G9'' @ [once (OneOf ''01'')],
    lits ''G92'' @ [star AnyChar],
    lits ''M10'' @ [once (Range CHR ''4'' CHR ''9''), star AnyChar],
    lits ''M11'' @ [once (OneOf ''45''), star AnyChar],
    lits ''M1'' @ [once (OneOf ''89''), once (Lit CHR ''0''), star AnyChar],
    lits ''M220'' @ [star AnyChar],
    lits ''M221'' @ [star AnyChar],
    lits ''M'' @ [once (OneOf ''23''), once (Range CHR ''0'' CHR ''9''), star AnyChar]]"

text \<open>
  The loop over the translation table: the first pattern that matches returns its
  replacement; a replacement that raises is skipped (\<open>except Exception: continue\<close>).
\<close>

fun scan_translations :: "(item list \<times> action) list \<Rightarrow> string \<Rightarrow> string option" where
  "scan_translations [] gcode = None"
| "scan_translations ((pattern, replacement) # rules) gcode =
     (case re_match pattern gcode of
        None \<Rightarrow> scan_translations rules gcode
      | Some m \<Rightarrow>
          (case replacement of
             StaticCommand text \<Rightarrow> Some text
           | Transform f \<Rightarrow>
               (case f m of Inr text \<Rightarrow> Some text
                          | Inl err \<Rightarrow> scan_translations rules gcode)))"

fun scan_passthrough :: "item list list \<Rightarrow> string \<Rightarrow> string option" where
  "scan_passthrough [] gcode = None"
| "scan_passthrough (pattern # patterns) gcode =
     (case re_match pattern gcode of
        None \<Rightarrow> scan_passthrough patterns gcode
      | Some m \<Rightarrow> Some gcode)"


text \<open>\<open>text.replace(old, "")\<close>: every occurrence of \<open>old\<close>, left to right, is taken out.\<close>

function str_remove :: "string \<Rightarrow> string \<Rightarrow> string" where
  "str_remove old s =
     (if s = [] then []
      else if old \<noteq> [] \<and> startswith s old then str_remove old (drop (length old) s)
      else hd s # str_remove old (tl s))"
  by pat_completeness auto
termination
  by (relation "measure (\<lambda>(old, s). length s)") auto

definition and_then :: "py_error + 'a \<Rightarrow> ('a \<Rightarrow> py_error + 'b) \<Rightarrow> py_error + 'b" where
  "and_then r f = (case r of Inl err \<Rightarrow> Inl err | Inr x \<Rightarrow> f x)"

record gcode_translator =
  available_macros :: "string set"
  macros_checked :: bool

text \<open>
  The keys of \<open>result["result"]["status"]["configfile"]["settings"]\<close>, when the three
  membership tests of the \<open>if\<close> hold; no keys when one of them fails; an exception
  when a test or a subscript raises.
\<close>

definition config_keys :: "json \<Rightarrow> py_error + string list" where
  "config_keys result =
     and_then (json_contains ''result'' result) (\<lambda>has_result.
     if \<not> has_result then Inr []
      else and_then (json_getitem result ''result'') (\<lambda>r.
           and_then (json_contains ''status'' r) (\<lambda>has_status.
           if \<not> has_status then Inr []
           else and_then (json_getitem r ''status'') (\<lambda>st.
                and_then (json_contains ''configfile'' st) (\<lambda>has_configfile.
                if \<not> has_configfile then Inr []
                else and_then (json_getitem st ''configfile'') (\<lambda>cf.
                     and_then (json_getitem cf ''settings'') (\<lambda>config.
                     json_keys config)))))))"

definition macro_name :: "string \<Rightarrow> string" where
  "macro_name key = upper (str_remove ''gcode_macro '' key)"

text \<open>
  \<open>check_available_macros\<close>.  With one thread of control the second test of the flag
  under the lock repeats the first.  Whatever the \<open>try\<close> raises is caught, and the
  \<open>finally\<close> sets the flag.
\<close>

definition check_available_macros ::
  "env \<Rightarrow> gcode_translator \<times> moonraker_client \<Rightarrow> gcode_translator \<times> moonraker_client" where
  "check_available_macros e tc =
     (case tc of (t, c) \<Rightarrow>
        if macros_checked t then (t, c)
        else (case make_request e ''GET'' ''/printer/objects/query?configfile'' None c of
                (Inl err, c') \<Rightarrow> (t\<lparr>macros_checked := True\<rparr>, c')
              | (Inr result, c') \<Rightarrow>
                  (case config_keys result of
                     Inl err \<Rightarrow> (t\<lparr>macros_checked := True\<rparr>, c')
                   | Inr keys \<Rightarrow>
                       (t\<lparr>available_macros := available_macros t \<union>
                              set (map macro_name
                                     (filter (\<lambda>key. startswith key ''gcode_macro '') keys)),
                          macros_checked := True\<rparr>, c'))))"

definition translate_gcode ::
  "env \<Rightarrow> string \<Rightarrow> gcode_translator \<times> moonraker_client
   \<Rightarrow> string option \<times> (gcode_translator \<times> moonraker_client)" where
  "translate_gcode e gcode0 tc =
     (if gcode0 = [] \<or> strip gcode0 = [] then (None, tc)
      else
        (let gcode = strip gcode0;
             tc' = check_available_macros e tc
         in if upper gcode = ''M701'' then
              (if ''LOAD_FILAMENT'' \<in> available_macros (fst tc')
               then (Some ''LOAD_FILAMENT'', tc') else (Some ''TFT_LOAD_FILAMENT'', tc'))
            else if upper gcode = ''M702'' then
              (if ''UNLOAD_FILAMENT'' \<in> available_macros (fst tc')
               then (Some ''UNLOAD_FILAMENT'', tc') else (Some ''TFT_UNLOAD_FILAMENT'', tc'))
            else
              (case scan_translations translations_tbl gcode of
                 Some text \<Rightarrow> (Some text, tc')
               | None \<Rightarrow>
                   (case scan_passthrough passthrough_patterns gcode of
                      Some text \<Rightarrow> (Some text, tc')
                    | None \<Rightarrow>
                        if startswith (upper gcode) ''M115'' then (None, tc')
                        else if startswith (upper gcode) ''M105'' then (None, tc')
                        else (None, tc')))))"

section \<open>TFTSerial\<close>

definition newline :: char where
  "newline = CHR 0x0A"

text \<open>
  The serial link: \<open>serial_present\<close> says that \<open>self.serial\<close> is not \<open>None\<close>,
  \<open>written\<close> lists what \<open>serial.write\<close> took and \<open>flush\<close> sent, \<open>write_count\<close>
  numbers the writes tried.
\<close>

record tft_serial =
  connected_flag :: bool
  serial_present :: bool
  read_buffer :: string
  written :: "string list"
  write_count :: nat

text \<open>
  What one poll of the port finds: nothing waiting, the waiting bytes as
  \<open>decode('utf-8', errors='ignore')\<close> returns them, or an exception.
\<close>

datatype serial_input = NoData | Data string | ReadFailed py_error

definition read_line :: "serial_input \<Rightarrow> tft_serial \<Rightarrow> string option \<times> tft_serial" where
  "read_line inp t =
     (if \<not> connected_flag t \<or> \<not> serial_present t then (None, t)
      else
        (case inp of
           NoData \<Rightarrow> (None, t)
         | ReadFailed (Raised cls msg) \<Rightarrow>
             (None, if cls = SerialException then t\<lparr>connected_flag := False\<rparr> else t)
         | Data data \<Rightarrow>
             (let buffer = read_buffer t @ data
              in if newline \<in> set buffer then
                   (let lines = split_chr newline buffer
                    in (if strip (hd lines) \<noteq> [] then Some (strip (hd lines)) else None,
                        t\<lparr>read_buffer := last lines\<rparr>))
                 else (None, t\<lparr>read_buffer := buffer\<rparr>))))"

text \<open>Successive polls, each with what it finds; the lines returned, in order.\<close>

fun read_lines :: "serial_input list \<Rightarrow> tft_serial \<Rightarrow> string option list \<times> tft_serial" where
  "read_lines [] t = ([], t)"
| "read_lines (inp # inps) t =
     (case read_line inp t of
        (r, t') \<Rightarrow> (case read_lines inps t' of (rs, t'') \<Rightarrow> (r # rs, t'')))"

definition write_line :: "env \<Rightarrow> string \<Rightarrow> tft_serial \<Rightarrow> bool \<times> tft_serial" where
  "write_line e data0 t =
     (if \<not> connected_flag t \<or> \<not> serial_present t then (False, t)
      else
        (let data = (if length data0 > 1000 then take 1000 data0 else data0);
             line = data @ [newline]
         in case serial_write e (write_count t) line of
              Done \<Rightarrow> (True, t\<lparr>written := written t @ [line],
                                 write_count := Suc (write_count t)\<rparr>)
            | IOFailed (Raised cls msg) \<Rightarrow>
                (False, if cls = SerialException
                        then t\<lparr>connected_flag := False, write_count := Suc (write_count t)\<rparr>
                        else t\<lparr>write_count := Suc (write_count t)\<rparr>)))"


section \<open>TFTMoonrakerBridge\<close>

text \<open>
  The objects the bridge calls into, as it sees them: methods that return or raise.
  \<open>b_test_mode\<close> is \<open>self.config.test_mode\<close>.
\<close>

record 'st collaborators =
  tft_write_line :: "string \<Rightarrow> (bool, 'st) coroutine"
  translator_translate_gcode :: "string \<Rightarrow> (string option, 'st) coroutine"
  moonraker_send_gcode :: "string \<Rightarrow> (json, 'st) coroutine"
  moonraker_get_printer_status :: "(json, 'st) coroutine"
  test_handler_log_command :: "string \<Rightarrow> (unit, 'st) coroutine"
  b_test_mode :: bool

definition firmware_response :: string where
  "firmware_response = ''FIRMWARE_NAME:Klipper FIRMWARE_VERSION:v0.11.0 PROTOCOL_VERSION:1.0 MACHINE_TYPE:TFT_Bridge BRIDGE_VERSION:2.3.4''"

definition handle_m115 :: "'st collaborators \<Rightarrow> (unit, 'st) coroutine" where
  "handle_m115 col =
     try_except
       (then_run (tft_write_line col firmware_response) (\<lambda>_.
        then_run (tft_write_line col ''ok'') (\<lambda>_. returns ())))
       (\<lambda>err. returns ())"

definition zero_temperatures :: string where
  "zero_temperatures = ''ok T:0.0 /0.0 B:0.0 /0.0''"

text \<open>\<open>f"{tag}:{h.get('temperature', 0):.1f} /{h.get('target', 0):.1f}"\<close>\<close>

definition heater_part :: "env \<Rightarrow> string \<Rightarrow> json \<Rightarrow> py_error + string" where
  "heater_part e tag h =
     fmt [Inr tag, Inr '':'', and_then (json_get h ''temperature'' (JNum 0)) (format_1f e),
          Inr '' /'', and_then (json_get h ''target'' (JNum 0)) (format_1f e)]"

fun join_spaces :: "string list \<Rightarrow> string" where
  "join_spaces [] = []"
| "join_spaces [p] = p"
| "join_spaces (p # ps) = p @ '' '' @ join_spaces ps"

text \<open>The reply \<open>handle_m105\<close> builds from the status, before it writes it.\<close>

definition temperature_response :: "env \<Rightarrow> json \<Rightarrow> py_error + string" where
  "temperature_response e status =
     and_then (json_contains ''result'' status) (\<lambda>has_result.
     if \<not> has_result then Inr zero_temperatures
      else and_then (json_getitem status ''result'') (\<lambda>r.
           and_then (json_contains ''status'' r) (\<lambda>has_status.
           if \<not> has_status then Inr zero_temperatures
           else and_then (json_getitem r ''status'') (\<lambda>printer_status.
                and_then (json_contains ''extruder'' printer_status) (\<lambda>has_extruder.
                and_then (if has_extruder
                          then and_then (json_getitem printer_status ''extruder'')
                                 (\<lambda>ext. and_then (heater_part e ''T'' ext) (\<lambda>p. Inr [p]))
                          else Inr []) (\<lambda>parts1.
                and_then (json_contains ''heater_bed'' printer_status) (\<lambda>has_bed.
                and_then (if has_bed
                          then and_then (json_getitem printer_status ''heater_bed'')
                                 (\<lambda>bed. and_then (heater_part e ''B'' bed) (\<lambda>p. Inr [p]))
                          else Inr []) (\<lambda>parts2.
                Inr (if parts1 @ parts2 \<noteq> [] then ''ok '' @ join_spaces (parts1 @ parts2)
                     else zero_temperatures)))))))))"

definition handle_m105 :: "'st collaborators \<Rightarrow> env \<Rightarrow> (unit, 'st) coroutine" where
  "handle_m105 col e =
     try_except
       (then_run (moonraker_get_printer_status col) (\<lambda>status.
        then_run (evaluates (temperature_response e status)) (\<lambda>response.
        then_run (tft_write_line col response) (\<lambda>_. returns ()))))
       (\<lambda>err. then_run (tft_write_line col zero_temperatures) (\<lambda>_. returns ()))"

text \<open>\<open>str(v)\<close> inside an f-string: a string is itself, the rest is the runtime's.\<close>

definition to_text :: "env \<Rightarrow> json \<Rightarrow> string" where
  "to_text e v = (case v of JStr s \<Rightarrow> s | _ \<Rightarrow> py_str e v)"

text \<open>The \<open>try\<close> block of \<open>process_gcode\<close>.\<close>

definition process_gcode_try :: "'st collaborators \<Rightarrow> env \<Rightarrow> string \<Rightarrow> (unit, 'st) coroutine" where
  "process_gcode_try col e gcode0 =
     (let gcode = strip gcode0
      in if gcode = [] then returns ()
         else if startswith (upper gcode) ''M115'' then
           then_run (if b_test_mode col then test_handler_log_command col gcode else returns ())
             (\<lambda>_. handle_m115 col)
         else if startswith (upper gcode) ''M105'' then
           then_run (if b_test_mode col then test_handler_log_command col gcode else returns ())
             (\<lambda>_. handle_m105 col e)
         else
           then_run (translator_translate_gcode col gcode) (\<lambda>translated.
             case translated of
               None \<Rightarrow> then_run (tft_write_line col ''ok'') (\<lambda>_. returns ())
             | Some text \<Rightarrow>
                 if text = [] then then_run (tft_write_line col ''ok'') (\<lambda>_. returns ())
                 else
                   try_except
                     (then_run (moonraker_send_gcode col text) (\<lambda>result.
                      then_run (evaluates (json_contains ''error'' result)) (\<lambda>has_error.
                        if has_error then
                          then_run (evaluates (json_getitem result ''error'')) (\<lambda>err_value.
                          then_run (tft_write_line col (''!! '' @ to_text e err_value))
                            (\<lambda>_. returns ()))
                        else then_run (tft_write_line col ''ok'') (\<lambda>_. returns ()))))
                     (\<lambda>moonraker_error.
                        then_run (tft_write_line col ''ok'') (\<lambda>_. returns ()))))"

text \<open>
  \<open>process_gcode\<close>: the \<open>try\<close> block, and the handler that answers \<open>ok\<close> inside a
  \<open>try\<close> whose bare \<open>except\<close> passes.
\<close>

definition process_gcode_with :: "'st collaborators \<Rightarrow> env \<Rightarrow> string \<Rightarrow> (unit, 'st) coroutine" where
  "process_gcode_with col e gcode =
     try_except (process_gcode_try col e gcode)
       (\<lambda>err. try_except (then_run (tft_write_line col ''ok'') (\<lambda>_. returns ()))
                 (\<lambda>err'. returns ()))"

text \<open>The bridge with its three objects; the translator works on the bridge's client.\<close>

record bridge =
  tft :: tft_serial
  moonraker :: moonraker_client
  translator :: gcode_translator

definition bridge_collaborators :: "env \<Rightarrow> bool \<Rightarrow> bridge collaborators" where
  "bridge_collaborators e tm =
     \<lparr>tft_write_line = (\<lambda>data b.
          case write_line e data (tft b) of (ok, t') \<Rightarrow> (Inr ok, b\<lparr>tft := t'\<rparr>)),
      translator_translate_gcode = (\<lambda>gcode b.
          case translate_gcode e gcode (translator b, moonraker b) of
            (r, (t', c')) \<Rightarrow> (Inr r, b\<lparr>moonraker := c', translator := t'\<rparr>)),
      moonraker_send_gcode = (\<lambda>gcode b.
          case send_gcode e gcode (moonraker b) of (r, c') \<Rightarrow> (r, b\<lparr>moonraker := c'\<rparr>)),
      moonraker_get_printer_status = (\<lambda>b.
          case get_printer_status e (moonraker b) of (r, c') \<Rightarrow> (r, b\<lparr>moonraker := c'\<rparr>)),
      test_handler_log_command = (\<lambda>gcode b.
          (Inr (), b\<lparr>moonraker := log_command (moonraker b)\<rparr>)),
      b_test_mode = tm\<rparr>"

definition process_gcode :: "env \<Rightarrow> string \<Rightarrow> (unit, bridge) coroutine" where
  "process_gcode e gcode b =
     process_gcode_with (bridge_collaborators e (test_mode (moonraker b))) e gcode b"

section \<open>Construction of the objects\<close>

text \<open>
  The constructors, with the values they set.  The client builds its rate limiter as
  \<open>RateLimiter(max_requests=20, time_window=1.0)\<close>, and its base URL here is the one
  of the host and port the configuration defaults to; a new link is closed, and a
  successful \<open>connect\<close> opens it.
\<close>

definition new_rate_limiter :: "int \<Rightarrow> real \<Rightarrow> rate_limiter" where
  "new_rate_limiter n w = \<lparr>max_requests = n, time_window = w, requests = []\<rparr>"

definition new_moonraker_client :: "bool \<Rightarrow> int \<Rightarrow> real \<Rightarrow> moonraker_client" where
  "new_moonraker_client tm retries delay =
     \<lparr>base_url = ''http://localhost:7125'', test_mode = tm, max_retries = retries,
      retry_delay = delay, rate_limiter = new_rate_limiter 20 1, command_count = 0,
      clock_reads = 0, http_count = 0\<rparr>"

definition new_gcode_translator :: gcode_translator where
  "new_gcode_translator = \<lparr>available_macros = {}, macros_checked = False\<rparr>"

definition new_tft_serial :: tft_serial where
  "new_tft_serial = \<lparr>connected_flag = False, serial_present = False, read_buffer = [],
                      written = [], write_count = 0\<rparr>"

definition connected_link :: "tft_serial \<Rightarrow> tft_serial" where
  "connected_link t = t\<lparr>connected_flag := True, serial_present := True\<rparr>"

definition new_bridge :: "bool \<Rightarrow> int \<Rightarrow> real \<Rightarrow> bridge" where
  "new_bridge tm retries delay =
     \<lparr>tft = new_tft_serial, moonraker = new_moonraker_client tm retries delay,
      translator = new_gcode_translator\<rparr>"

text \<open>
  A \<open>urljoin\<close> for the environments below.  On an endpoint that begins \<open>//[\<close> and
  holds no closing bracket it raises as the library does (the network location of the
  endpoint opens an IPv6 literal it never closes); on the endpoints of the client,
  absolute paths joined to a base without a path, it returns the base followed by the
  endpoint, as the library does.
\<close>

definition plain_urljoin :: "string \<Rightarrow> string \<Rightarrow> py_error + string" where
  "plain_urljoin base endpoint =
     (if startswith endpoint ''//['' \<and> CHR '']'' \<notin> set endpoint
      then Inl (Raised ValueError ''Invalid IPv6 URL'')
      else Inr (base @ endpoint))"

text \<open>
  An environment in which the host is down: every HTTP exchange is refused, every
  serial write succeeds, the clock advances one second per reading.
\<close>

definition host_down :: env where
  "host_down =
     \<lparr>http = (\<lambda>k method url data. Failed (Raised ClientError ''Cannot connect to host'')),
      serial_write = (\<lambda>k line. Done),
      clock = (\<lambda>k. real k),
      urljoin = plain_urljoin,
      py_str = (\<lambda>v. ''{}''),
      format_1f = (\<lambda>v. Inl (Raised ValueError ''Unknown format code''))\<rparr>"

text \<open>An environment in which the host answers every request with the JSON list \<open>[1, 2]\<close>.\<close>

definition host_answers_list :: env where
  "host_answers_list = host_down\<lparr>http := (\<lambda>k method url data. Response (JArr [JNum 1, JNum 2]))\<rparr>"

text \<open>A dictionary, and a dictionary with the key \<open>error\<close>.\<close>

fun is_dict :: "json \<Rightarrow> bool" where
  "is_dict (JObj kvs) = True"
| "is_dict v = False"

fun has_error_key :: "json \<Rightarrow> bool" where
  "has_error_key (JObj kvs) = (map_of kvs ''error'' \<noteq> None)"
| "has_error_key v = False"

text \<open>
  A translator whose \<open>translate_gcode\<close> raises, in place of the bridge's own: the
  failure the handler at the top of \<open>process_gcode\<close> is there for.
\<close>

definition with_failing_translator :: "'st collaborators \<Rightarrow> 'st collaborators" where
  "with_failing_translator col =
     col\<lparr>translator_translate_gcode :=
           (\<lambda>gcode. evaluates (Inl (Raised OtherException ''translator failed'')))\<rparr>"

text \<open>
  A command that is not recognised: not blank, not one of the commands answered
  before or instead of the table (M115, M105, M701, M702), matched by no pattern of
  the translation table and by no passthrough pattern.
\<close>

definition unrecognized :: "string \<Rightarrow> bool" where
  "unrecognized gcode =
     (gcode \<noteq> []
      \<and> \<not> startswith (upper gcode) ''M115'' \<and> \<not> startswith (upper gcode) ''M105''
      \<and> upper gcode \<noteq> ''M701'' \<and> upper gcode \<noteq> ''M702''
      \<and> list_all (\<lambda>rule. re_match (fst rule) gcode = None) translations_tbl
      \<and> list_all (\<lambda>pattern. re_match pattern gcode = None) passthrough_patterns)"

text \<open>
  What an operation of the client may return: a dictionary, or else the body the host
  sent in one of its responses, as it was decoded.
\<close>

definition dict_or_host_body :: "env \<Rightarrow> json \<Rightarrow> bool" where
  "dict_or_host_body e r = (is_dict r \<or> (\<exists>k method url data. http e k method url data = Response r))"

section \<open>Properties of the string functions\<close>

lemma startswith_Cons: "startswith (c # cs) (d # ds) = (c = d \<and> startswith cs ds)"
  by (simp add: startswith_def)

lemma startswith_Nil: "startswith s []"
  by (simp add: startswith_def)

lemma split_chr_nonempty: "split_chr sep cs \<noteq> []"
  by (induction cs) (auto split: list.splits)

lemma first_line_is_prefix: "split_chr sep cs = line # lines \<Longrightarrow> startswith cs line"
proof (induction cs arbitrary: line lines)
  case Nil
  then show ?case by (simp add: startswith_def)
next
  case (Cons d ds)
  then show ?case
    by (cases "split_chr sep ds") (auto simp: startswith_def split: if_splits)
qed

lemma segment_contained:
  "seg \<in> set (split_chr sep name) \<Longrightarrow> str_contains seg name"
proof (induction name arbitrary: seg)
  case Nil
  then show ?case by simp
next
  case (Cons c cs)
  show ?case
  proof (cases "c = sep")
    case True
    with Cons show ?thesis by (auto simp: startswith_def)
  next
    case False
    obtain line lines where sp: "split_chr sep cs = line # lines"
      using split_chr_nonempty [of sep cs] by (cases "split_chr sep cs") auto
    from Cons.prems False sp have "seg = c # line \<or> seg \<in> set lines" by simp
    then show ?thesis
    proof
      assume "seg = c # line"
      then show ?thesis using first_line_is_prefix [OF sp] by (simp add: startswith_Cons)
    next
      assume "seg \<in> set lines"
      then have "seg \<in> set (split_chr sep cs)" using sp by simp
      then show ?thesis using Cons.IH by simp
    qed
  qed
qed

section \<open>SecurityValidator: filename validation\<close>

text \<open>
  C3, as the code has it.  \<open>validate_filename\<close> returns false for the empty name, for a
  name one of whose segments between slashes is the parent directory \<open>..\<close>, for an
  absolute path, for a name with a backslash, and for a name of more than 255
  characters.  It returns false for \<open>../../etc/passwd\<close> and for \<open>/abs/path.gcode\<close>,
  and true for \<open>job.gcode\<close>.
\<close>

theorem validate_filename_rejects:
  "(name = [] \<or> ''..'' \<in> set (split_chr CHR ''/'' name) \<or> isabs name
      \<or> backslash \<in> set name \<or> length name > 255 \<longrightarrow> \<not> validate_filename name)
   \<and> \<not> validate_filename ''../../etc/passwd''
   \<and> \<not> validate_filename ''/abs/path.gcode''
   \<and> validate_filename ''job.gcode''"
proof (intro conjI impI)
  assume "name = [] \<or> ''..'' \<in> set (split_chr CHR ''/'' name) \<or> isabs name
      \<or> backslash \<in> set name \<or> length name > 255"
  then show "\<not> validate_filename name"
    using segment_contained [of "''..''" "CHR ''/''" name]
    by (auto simp: validate_filename_def isabs_def)
next
  show "\<not> validate_filename ''../../etc/passwd''"
    by (simp add: validate_filename_def startswith_def)
next
  show "\<not> validate_filename ''/abs/path.gcode''"
    by (simp add: validate_filename_def startswith_def)
next
  show "validate_filename ''job.gcode''"
    by (simp add: validate_filename_def startswith_def isabs_def backslash_def)
qed

theorem validate_filename_rejects_witness:
  "''..'' \<in> set (split_chr CHR ''/'' ''gcodes/../printer.cfg'')
   \<and> \<not> validate_filename ''gcodes/../printer.cfg''"
proof -
  have h: "''..'' \<in> set (split_chr CHR ''/'' ''gcodes/../printer.cfg'')" by code_simp
  have imp: "''gcodes/../printer.cfg'' = [] \<or> ''..'' \<in> set (split_chr CHR ''/'' ''gcodes/../printer.cfg'')
      \<or> isabs ''gcodes/../printer.cfg'' \<or> backslash \<in> set ''gcodes/../printer.cfg''
      \<or> length ''gcodes/../printer.cfg'' > 255 \<longrightarrow> \<not> validate_filename ''gcodes/../printer.cfg''"
    using validate_filename_rejects [of "''gcodes/../printer.cfg''"] by (rule conjunct1)
  have "\<not> validate_filename ''gcodes/../printer.cfg''"
    by (rule mp [OF imp], rule disjI2, rule disjI1, rule h)
  with h show ?thesis by (rule conjI)
qed

text \<open>
  C3 as written rejects every name with a path separator that a single segment does
  not have.  The name \<open>sub/job.gcode\<close> holds a slash, is two segments long, and is
  accepted: the code looks for a slash at the start only.
\<close>

theorem validate_filename_inner_slash_counterexample:
  "CHR ''/'' \<in> set ''sub/job.gcode''
   \<and> split_chr CHR ''/'' ''sub/job.gcode'' = [''sub'', ''job.gcode'']
   \<and> validate_filename ''sub/job.gcode''"
  by code_simp

section \<open>SecurityValidator: command sanitisation\<close>

lemma set_strip: "set (strip s) \<subseteq> set s"
proof
  fix c assume "c \<in> set (strip s)"
  then have "c \<in> set (dropWhile is_space (rev (dropWhile is_space s)))"
    by (simp add: strip_def)
  then have "c \<in> set (rev (dropWhile is_space s))" by (rule set_dropWhileD)
  then have "c \<in> set (dropWhile is_space s)" by simp
  then show "c \<in> set s" by (rule set_dropWhileD)
qed

lemma length_strip: "length (strip s) \<le> length s"
proof -
  have "length (strip s) \<le> length (dropWhile is_space s)"
    using length_dropWhile_le [of is_space "rev (dropWhile is_space s)"]
    by (simp add: strip_def)
  also have "\<dots> \<le> length s" by (rule length_dropWhile_le)
  finally show ?thesis .
qed

lemma dropWhile_id: "xs = [] \<or> \<not> P (hd xs) \<Longrightarrow> dropWhile P xs = xs"
  by (cases xs) auto

lemma strip_fixed:
  assumes "s = [] \<or> (\<not> is_space (hd s) \<and> \<not> is_space (last s))"
  shows "strip s = s"
proof (cases "s = []")
  case True
  then show ?thesis by (simp add: strip_def)
next
  case False
  with assms have h: "\<not> is_space (hd s)" and l: "\<not> is_space (last s)" by auto
  have 1: "dropWhile is_space s = s" using h by (simp add: dropWhile_id)
  have "hd (rev s) = last s" using False by (simp add: hd_rev)
  then have 2: "dropWhile is_space (rev s) = rev s" using l by (simp add: dropWhile_id)
  show ?thesis by (simp add: strip_def 1 2)
qed

lemma strip_ends:
  "strip s = [] \<or> (\<not> is_space (hd (strip s)) \<and> \<not> is_space (last (strip s)))"
proof (cases "strip s = []")
  case True
  then show ?thesis by simp
next
  case False
  define a where "a = dropWhile is_space s"
  define b where "b = dropWhile is_space (rev a)"
  have sb: "strip s = rev b" by (simp add: strip_def a_def b_def)
  with False have bne: "b \<noteq> []" by simp
  then have "\<not> is_space (hd b)" unfolding b_def by (rule hd_dropWhile)
  then have l: "\<not> is_space (last (strip s))" using bne by (simp add: sb last_rev)
  have "rev a = takeWhile is_space (rev a) @ b" by (simp add: b_def)
  then have "a = rev b @ rev (takeWhile is_space (rev a))"
    by (metis rev_append rev_rev_ident)
  then have hd_eq: "hd a = hd (rev b)" using bne by (metis hd_append2 rev_is_Nil_conv)
  have "a \<noteq> []" using bne b_def by auto
  then have "\<not> is_space (hd a)" unfolding a_def by (rule hd_dropWhile)
  then have "\<not> is_space (hd (strip s))" by (simp add: sb hd_eq)
  with l show ?thesis by simp
qed

lemma strip_strip: "strip (strip s) = strip s"
  by (rule strip_fixed) (rule strip_ends)

lemma sanitize_gcode_chars: "c \<in> set (sanitize_gcode x) \<Longrightarrow> gcode_char_allowed c"
  by (auto simp: sanitize_gcode_def Let_def split: if_splits dest: in_set_takeD)

lemma sanitize_gcode_length: "length (sanitize_gcode x) \<le> 1000"
  by (simp add: sanitize_gcode_def Let_def)

lemma sanitize_gcode_again: "sanitize_gcode (sanitize_gcode x) = strip (sanitize_gcode x)"
proof (cases "sanitize_gcode x = []")
  case True
  then show ?thesis by (simp add: sanitize_gcode_def strip_def)
next
  case False
  define y where "y = sanitize_gcode x"
  have "\<forall>c \<in> set (strip y). gcode_char_allowed c"
    using set_strip [of y] sanitize_gcode_chars [of _ x] by (auto simp: y_def)
  then have f: "filter gcode_char_allowed (strip y) = strip y" by (simp add: filter_id_conv)
  have "length (strip y) \<le> 1000"
    using length_strip [of y] sanitize_gcode_length [of x] by (simp add: y_def)
  with f False show ?thesis
    unfolding y_def [symmetric] by (simp add: sanitize_gcode_def [of y] Let_def)
qed

text \<open>
  C4, as the code has it.  The output of \<open>sanitize_gcode\<close> holds only word characters
  (letters, digits and the underscore), whitespace, and \<open>.\<close>, \<open>-\<close>, \<open>+\<close>, \<open>=\<close>,
  \<open>:\<close>; it is at most 1000 characters long; the empty input gives the empty output.
\<close>

theorem sanitize_gcode_allow_list:
  "(\<forall>c \<in> set (sanitize_gcode x).
      is_alpha c \<or> is_numeric c \<or> c = CHR ''_'' \<or> is_space c \<or> c \<in> set ''.-+=:'')
   \<and> length (sanitize_gcode x) \<le> 1000
   \<and> sanitize_gcode [] = []"
proof (intro conjI ballI)
  fix c assume "c \<in> set (sanitize_gcode x)"
  then have "gcode_char_allowed c" by (rule sanitize_gcode_chars)
  then show "is_alpha c \<or> is_numeric c \<or> c = CHR ''_'' \<or> is_space c \<or> c \<in> set ''.-+=:''"
    by (auto simp: gcode_char_allowed_def is_word_def is_alnum_def)
next
  show "length (sanitize_gcode x) \<le> 1000" by (rule sanitize_gcode_length)
next
  show "sanitize_gcode [] = []" by (simp add: sanitize_gcode_def)
qed

theorem sanitize_gcode_allow_list_witness:
  "CHR ''_'' \<in> set (sanitize_gcode ''SET_PIN;'')
   \<and> (is_alpha CHR ''_'' \<or> is_numeric CHR ''_'' \<or> CHR ''_'' = CHR ''_'' \<or> is_space CHR ''_''
        \<or> CHR ''_'' \<in> set ''.-+=:'')
   \<and> length (sanitize_gcode ''SET_PIN;'') \<le> 1000"
proof -
  have v: "CHR ''_'' \<in> set (sanitize_gcode ''SET_PIN;'')" by code_simp
  note t = sanitize_gcode_allow_list [of "''SET_PIN;''"]
  from t have "\<forall>c \<in> set (sanitize_gcode ''SET_PIN;'').
      is_alpha c \<or> is_numeric c \<or> c = CHR ''_'' \<or> is_space c \<or> c \<in> set ''.-+=:''"
    by (rule conjunct1)
  then have 1: "is_alpha CHR ''_'' \<or> is_numeric CHR ''_'' \<or> CHR ''_'' = CHR ''_''
      \<or> is_space CHR ''_'' \<or> CHR ''_'' \<in> set ''.-+=:''"
    using v by (rule bspec)
  from t have 2: "length (sanitize_gcode ''SET_PIN;'') \<le> 1000" by blast
  from v 1 2 show ?thesis by (intro conjI)
qed

text \<open>
  C4 as written leaves the underscore out of the allow-list.  The underscore of
  \<open>A_B\<close> is in the output, and it is neither a letter, nor a digit, nor whitespace,
  nor one of the five punctuation characters.
\<close>

theorem sanitize_gcode_allow_list_counterexample:
  "CHR ''_'' \<in> set (sanitize_gcode ''A_B'')
   \<and> \<not> (is_alpha CHR ''_'' \<or> is_numeric CHR ''_'' \<or> is_space CHR ''_''
          \<or> CHR ''_'' \<in> set ''.-+=:'')"
  by code_simp

text \<open>
  C5, as the code has it.  A second pass of \<open>sanitize_gcode\<close> only trims the
  whitespace the first pass left at the two ends, a third pass changes nothing, and
  the output is at most 1000 characters long.
\<close>

theorem sanitize_gcode_second_pass:
  "sanitize_gcode (sanitize_gcode x) = strip (sanitize_gcode x)
   \<and> sanitize_gcode (sanitize_gcode (sanitize_gcode x)) = sanitize_gcode (sanitize_gcode x)
   \<and> length (sanitize_gcode x) \<le> 1000"
proof (intro conjI)
  show "sanitize_gcode (sanitize_gcode x) = strip (sanitize_gcode x)"
    by (rule sanitize_gcode_again)
  have "sanitize_gcode (sanitize_gcode (sanitize_gcode x)) = strip (sanitize_gcode (sanitize_gcode x))"
    by (rule sanitize_gcode_again)
  also have "\<dots> = strip (strip (sanitize_gcode x))" by (simp only: sanitize_gcode_again)
  also have "\<dots> = strip (sanitize_gcode x)" by (rule strip_strip)
  also have "\<dots> = sanitize_gcode (sanitize_gcode x)" by (simp only: sanitize_gcode_again)
  finally show "sanitize_gcode (sanitize_gcode (sanitize_gcode x)) = sanitize_gcode (sanitize_gcode x)" .
  show "length (sanitize_gcode x) \<le> 1000" by (rule sanitize_gcode_length)
qed

theorem sanitize_gcode_second_pass_witness:
  "sanitize_gcode (sanitize_gcode ''; A'') = ''A'' \<and> sanitize_gcode ''; A'' = '' A''"
proof -
  have v: "sanitize_gcode ''; A'' = '' A''" by code_simp
  have s: "strip '' A'' = ''A''" by code_simp
  from sanitize_gcode_second_pass [of "''; A''"]
  have "sanitize_gcode (sanitize_gcode ''; A'') = strip (sanitize_gcode ''; A'')"
    by (rule conjunct1)
  then show ?thesis by (simp only: v s simp_thms)
qed

text \<open>
  C5 as written says the second pass changes nothing.  The input \<open>; A\<close> is trimmed
  before the semicolon is taken out, which leaves a leading blank; the second pass
  trims it.
\<close>

theorem sanitize_gcode_idempotent_counterexample:
  "sanitize_gcode (sanitize_gcode ''; A'') \<noteq> sanitize_gcode ''; A''"
  by code_simp

section \<open>RateLimiter\<close>

lemma acquire_body:
  "(let evicted = ev
      in if int (length evicted) \<ge> max_requests rl then
           (case evicted of
              [] \<Rightarrow> (Inl (Raised IndexError ''deque index out of range''),
                     rl\<lparr>requests := evicted\<rparr>)
            | oldest # rest \<Rightarrow>
                (let sleep_time = time_window rl - (now - oldest)
                 in if sleep_time > 0
                    then (Inr (Some sleep_time), rl\<lparr>requests := rest @ [now]\<rparr>)
                    else (Inr None, rl\<lparr>requests := evicted @ [now]\<rparr>)))
         else (Inr None, rl\<lparr>requests := evicted @ [now]\<rparr>)) =
     (case ev of
        [] \<Rightarrow> if 0 \<ge> max_requests rl
              then (Inl (Raised IndexError ''deque index out of range''), rl\<lparr>requests := []\<rparr>)
              else (Inr None, rl\<lparr>requests := [now]\<rparr>)
      | oldest # rest \<Rightarrow>
          if int (length (oldest # rest)) \<ge> max_requests rl \<and> time_window rl - (now - oldest) > 0
          then (Inr (Some (time_window rl - (now - oldest))), rl\<lparr>requests := rest @ [now]\<rparr>)
          else (Inr None, rl\<lparr>requests := (oldest # rest) @ [now]\<rparr>))"
  by (cases ev) (simp_all add: Let_def)

lemma acquire_unfold:
  "acquire now rl =
     (case dropWhile (\<lambda>t. t < now - time_window rl) (requests rl) of
        [] \<Rightarrow> if 0 \<ge> max_requests rl
              then (Inl (Raised IndexError ''deque index out of range''), rl\<lparr>requests := []\<rparr>)
              else (Inr None, rl\<lparr>requests := [now]\<rparr>)
      | oldest # rest \<Rightarrow>
          if int (length (oldest # rest)) \<ge> max_requests rl \<and> time_window rl - (now - oldest) > 0
          then (Inr (Some (time_window rl - (now - oldest))), rl\<lparr>requests := rest @ [now]\<rparr>)
          else (Inr None, rl\<lparr>requests := (oldest # rest) @ [now]\<rparr>))"
  unfolding acquire_def by (rule acquire_body)

lemma acquire_ok:
  "0 < max_requests rl \<Longrightarrow> \<exists>slept rl'. acquire now rl = (Inr slept, rl')"
proof -
  assume n: "0 < max_requests rl"
  show ?thesis
  proof (cases "dropWhile (\<lambda>t. t < now - time_window rl) (requests rl)")
    case Nil
    show ?thesis using n by (simp only: acquire_unfold Nil list.case) simp
  next
    case (Cons oldest rest)
    show ?thesis by (simp only: acquire_unfold Cons list.case) simp
  qed
qed

text \<open>
  The window stays in time order as long as the clock does not run backwards.
\<close>

lemma acquire_keeps_order:
  assumes "sorted (requests rl)" and "\<forall>t \<in> set (requests rl). t \<le> now"
  shows "sorted (requests (snd (acquire now rl)))"
proof -
  define ev where "ev = dropWhile (\<lambda>t. t < now - time_window rl) (requests rl)"
  have s: "sorted ev" unfolding ev_def using assms(1) by (rule sorted_dropWhile)
  have b: "\<forall>t \<in> set ev. t \<le> now"
    unfolding ev_def using assms(2) by (auto dest: set_dropWhileD)
  have app: "sorted (ev @ [now])" using s b by (simp add: sorted_append)
  show ?thesis
  proof (cases ev)
    case Nil
    then show ?thesis by (simp add: acquire_unfold ev_def [symmetric])
  next
    case (Cons oldest rest)
    have "sorted (rest @ [now])" using app Cons by simp
    with app Cons show ?thesis by (simp add: acquire_unfold ev_def [symmetric])
  qed
qed

text \<open>
  C6 at a limiter of capacity 1 and window 1 that admitted a request at time 0.  A
  call made at time 1/10 sleeps for 9/10, so that it returns at time 1, and records
  1/10, the time read before the sleep; the steps as specified record 1, the time after
  the wait.  The next call, made at time 1, finds the entry 1/10 still in the window
  and sleeps for 1/10 only: the two requests leave the limiter at times 1 and 11/10, a
  tenth of the window apart.
\<close>

theorem acquire_records_stale_time:
  "acquire (1/10) \<lparr>max_requests = 1, time_window = 1, requests = [0]\<rparr>
     = (Inr (Some (9/10)), \<lparr>max_requests = 1, time_window = 1, requests = [1/10]\<rparr>)
   \<and> acquire_as_specified (1/10) \<lparr>max_requests = 1, time_window = 1, requests = [0]\<rparr>
     = (Some (9/10), \<lparr>max_requests = 1, time_window = 1, requests = [1]\<rparr>)
   \<and> acquire 1 \<lparr>max_requests = 1, time_window = 1, requests = [1/10]\<rparr>
     = (Inr (Some (1/10)), \<lparr>max_requests = 1, time_window = 1, requests = [1]\<rparr>)"
  by (simp add: acquire_def acquire_as_specified_def)

section \<open>MoonrakerClient\<close>

lemma request_attempts_keeps:
  "clock_reads (snd (request_attempts e m u d as c)) = clock_reads c
   \<and> rate_limiter (snd (request_attempts e m u d as c)) = rate_limiter c
   \<and> max_retries (snd (request_attempts e m u d as c)) = max_retries c
   \<and> test_mode (snd (request_attempts e m u d as c)) = test_mode c
   \<and> command_count (snd (request_attempts e m u d as c)) = command_count c
   \<and> base_url (snd (request_attempts e m u d as c)) = base_url c"
proof (induction as arbitrary: c)
  case Nil
  then show ?case by simp
next
  case (Cons a as)
  show ?case
  proof (cases "upper m = ''GET'' \<or> upper m = ''POST''")
    case False
    then show ?thesis using Cons.IH [of c] by simp
  next
    case True
    show ?thesis
    proof (cases "http e (http_count c) m u (if upper m = ''GET'' then None else d)")
      case (Response body)
      with True show ?thesis by simp
    next
      case (Failed err)
      obtain cls msg where err: "err = Raised cls msg" by (cases err)
      show ?thesis
        using True Failed err Cons.IH [of "c\<lparr>http_count := Suc (http_count c)\<rparr>"]
        by simp
    qed
  qed
qed

text \<open>
  C10, as the code has it.  With \<open>max_retries = 0\<close>, a rate limiter of positive
  capacity (the client builds its own with capacity 20) and an endpoint that
  \<open>urljoin\<close> joins to the base URL, \<open>_make_request\<close> makes no HTTP exchange and
  returns the dictionary \<open>{"error": "Max retries exceeded"}\<close>, whatever the method and
  the body.
\<close>

theorem make_request_no_retries:
  assumes "max_retries c = 0" and "0 < max_requests (rate_limiter c)"
    and "urljoin e (base_url c) endpoint = Inr url"
  shows "fst (make_request e method endpoint data c)
           = Inr (JObj [(''error'', JStr ''Max retries exceeded'')])
         \<and> http_count (snd (make_request e method endpoint data c)) = http_count c"
proof -
  obtain slept rl where a: "acquire (clock e (clock_reads c)) (rate_limiter c) = (Inr slept, rl)"
    using acquire_ok [OF assms(2)] by blast
  show ?thesis using assms(1) assms(3) by (simp add: make_request_def a)
qed

theorem make_request_no_retries_witness:
  "max_retries (new_moonraker_client False 0 1) = 0
   \<and> urljoin host_down (base_url (new_moonraker_client False 0 1)) ''/printer/info''
       = Inr ''http://localhost:7125/printer/info''
   \<and> fst (make_request host_down ''GET'' ''/printer/info'' None (new_moonraker_client False 0 1))
       = Inr (JObj [(''error'', JStr ''Max retries exceeded'')])
   \<and> http_count (snd (make_request host_down ''GET'' ''/printer/info'' None
                        (new_moonraker_client False 0 1))) = 0"
proof -
  have r: "max_retries (new_moonraker_client False 0 1) = 0"
    by (simp add: new_moonraker_client_def)
  have n: "0 < max_requests (rate_limiter (new_moonraker_client False 0 1))"
    by (simp add: new_moonraker_client_def new_rate_limiter_def)
  have u: "urljoin host_down (base_url (new_moonraker_client False 0 1)) ''/printer/info''
       = Inr ''http://localhost:7125/printer/info''"
    by code_simp
  have h: "http_count (new_moonraker_client False 0 1) = 0"
    by (simp add: new_moonraker_client_def)
  show ?thesis
    using make_request_no_retries [OF r n u, of "''GET''" None] r u h
    by simp
qed

text \<open>
  C10 as written holds for every endpoint.  The endpoint \<open>//[\<close> is one that \<open>urljoin\<close>
  rejects: the ValueError is raised before the loop, outside every \<open>try\<close>, and leaves
  \<open>_make_request\<close>, with \<open>max_retries = 0\<close> as with any other value.
\<close>

theorem make_request_bad_endpoint_counterexample:
  "max_retries (new_moonraker_client False 0 1) = 0
   \<and> make_request host_down ''GET'' ''//['' None (new_moonraker_client False 0 1)
       = (Inl (Raised ValueError ''Invalid IPv6 URL''),
          (new_moonraker_client False 0 1)
            \<lparr>rate_limiter := \<lparr>max_requests = 20, time_window = 1, requests = [0]\<rparr>,
              clock_reads := 1\<rparr>)"
  by code_simp

lemma except_error_dict_unfold:
  "except_error_dict body c =
     (case body c of (Inl err, c') \<Rightarrow> (Inr (error_dict err), c')
                   | (Inr r, c') \<Rightarrow> (Inr r, c'))"
  by (simp add: except_error_dict_def try_except_def returns_def split: prod.split sum.split)

lemma except_error_dict_raised:
  "body c = (Inl err, c1) \<Longrightarrow> except_error_dict body c = (Inr (error_dict err), c1)"
  by (simp add: except_error_dict_unfold)

lemma except_error_dict_result:
  assumes "\<And>r c'. body c = (Inr r, c') \<Longrightarrow> P r" and "\<And>err. P (error_dict err)"
  shows "\<exists>r c'. except_error_dict body c = (Inr r, c') \<and> P r"
proof (cases "body c")
  case (Pair res c')
  show ?thesis
  proof (cases res)
    case (Inl err)
    with Pair assms(2) show ?thesis by (simp add: except_error_dict_unfold)
  next
    case (Inr r)
    with Pair assms(1) show ?thesis by (simp add: except_error_dict_unfold)
  qed
qed

lemma error_dict_is_dict: "dict_or_host_body e (error_dict err)"
  by (simp add: dict_or_host_body_def error_dict_def)

lemma error_dict_has_key: "has_error_key (error_dict err)"
  by (simp add: error_dict_def)

lemma attempts_result:
  "request_attempts e m u d as c = (Inr r, c') \<Longrightarrow> dict_or_host_body e r"
proof (induction as arbitrary: c)
  case Nil
  then show ?case by (auto simp: dict_or_host_body_def)
next
  case (Cons a as)
  show ?case
  proof (cases "upper m = ''GET'' \<or> upper m = ''POST''")
    case False
    with Cons.prems have "request_attempts e m u d as c = (Inr r, c')" by simp
    then show ?thesis by (rule Cons.IH)
  next
    case True
    show ?thesis
    proof (cases "http e (http_count c) m u (if upper m = ''GET'' then None else d)")
      case (Response body)
      with True Cons.prems have "body = r" by simp
      with Response show ?thesis unfolding dict_or_host_body_def by blast
    next
      case (Failed err)
      obtain cls msg where err: "err = Raised cls msg" by (cases err)
      from True Failed err Cons.prems
      have "request_attempts e m u d as (c\<lparr>http_count := Suc (http_count c)\<rparr>) = (Inr r, c')"
        by (simp split: if_splits)
      then show ?thesis by (rule Cons.IH)
    qed
  qed
qed

lemma make_request_result:
  assumes "make_request e m ep d c = (Inr r, c')"
  shows "dict_or_host_body e r"
proof -
  obtain res rl where a: "acquire (clock e (clock_reads c)) (rate_limiter c) = (res, rl)"
    by (cases "acquire (clock e (clock_reads c)) (rate_limiter c)")
  show ?thesis
  proof (cases res)
    case (Inl err)
    with a assms show ?thesis by (simp add: make_request_def)
  next
    case (Inr slept)
    show ?thesis
    proof (cases "urljoin e (base_url c) ep")
      case (Inl err)
      with a Inr assms show ?thesis by (simp add: make_request_def)
    next
      case (Inr url)
      with a \<open>res = Inr slept\<close> assms
      have "request_attempts e m url d [0 ..< nat (max_retries c)]
              (c\<lparr>rate_limiter := rl, clock_reads := Suc (clock_reads c)\<rparr>) = (Inr r, c')"
        by (simp add: make_request_def)
      then show ?thesis by (rule attempts_result)
    qed
  qed
qed

lemma attempts_all_fail:
  assumes "\<And>k m u d. \<exists>err. http e k m u d = Failed err"
    and "request_attempts e m u d as c = (Inr r, c')"
  shows "has_error_key r"
  using assms(2)
proof (induction as arbitrary: c)
  case Nil
  then show ?case by auto
next
  case (Cons a as)
  show ?case
  proof (cases "upper m = ''GET'' \<or> upper m = ''POST''")
    case False
    with Cons.prems have "request_attempts e m u d as c = (Inr r, c')" by simp
    then show ?thesis by (rule Cons.IH)
  next
    case True
    obtain err where f: "http e (http_count c) m u (if upper m = ''GET'' then None else d) = Failed err"
      using assms(1) by blast
    obtain cls msg where err: "err = Raised cls msg" by (cases err)
    from True f err Cons.prems
    have "request_attempts e m u d as (c\<lparr>http_count := Suc (http_count c)\<rparr>) = (Inr r, c')"
      by (simp split: if_splits)
    then show ?thesis by (rule Cons.IH)
  qed
qed

lemma make_request_all_fail:
  assumes "\<And>k m u d. \<exists>err. http e k m u d = Failed err"
    and "make_request e m ep d c = (Inr r, c')"
  shows "has_error_key r"
proof -
  obtain res rl where a: "acquire (clock e (clock_reads c)) (rate_limiter c) = (res, rl)"
    by (cases "acquire (clock e (clock_reads c)) (rate_limiter c)")
  show ?thesis
  proof (cases res)
    case (Inl err)
    with a assms(2) show ?thesis by (simp add: make_request_def)
  next
    case (Inr slept)
    show ?thesis
    proof (cases "urljoin e (base_url c) ep")
      case (Inl err)
      with a Inr assms(2) show ?thesis by (simp add: make_request_def)
    next
      case (Inr url)
      with a \<open>res = Inr slept\<close> assms(2)
      have "request_attempts e m url d [0 ..< nat (max_retries c)]
              (c\<lparr>rate_limiter := rl, clock_reads := Suc (clock_reads c)\<rparr>) = (Inr r, c')"
        by (simp add: make_request_def)
      with assms(1) show ?thesis by (rule attempts_all_fail)
    qed
  qed
qed

lemma send_gcode_result: "\<exists>r c'. send_gcode e gcode c = (Inr r, c') \<and> dict_or_host_body e r"
  unfolding send_gcode_def
proof (rule except_error_dict_result)
  fix r c'
  assume "(let sanitized_gcode = sanitize_gcode gcode
            in if sanitized_gcode = [] then
                 (Inr (JObj [(''error'', JStr ''Invalid or empty G-code'')]), c)
               else if test_mode c then
                 (Inr (JObj [(''result'', JStr ''ok''), (''test_mode'', JBool True)]),
                  log_command c)
               else make_request e ''POST'' ''/printer/gcode/script''
                      (Some (JObj [(''script'', JStr sanitized_gcode)])) c) = (Inr r, c')"
  then show "dict_or_host_body e r"
    by (auto simp: Let_def dict_or_host_body_def split: if_splits dest: make_request_result)
next
  fix err show "dict_or_host_body e (error_dict err)" by (rule error_dict_is_dict)
qed


lemma wrapped_request_result:
  "\<exists>r c'. except_error_dict (make_request e m ep d) c = (Inr r, c') \<and> dict_or_host_body e r"
  by (rule except_error_dict_result) (auto dest: make_request_result intro: error_dict_is_dict)

lemma get_printer_status_result:
  "\<exists>r c'. get_printer_status e c = (Inr r, c') \<and> dict_or_host_body e r"
  unfolding get_printer_status_def
  by (rule except_error_dict_result)
     (auto simp: dict_or_host_body_def error_dict_def split: if_splits dest: make_request_result)

lemma get_printer_info_result:
  "\<exists>r c'. get_printer_info e c = (Inr r, c') \<and> dict_or_host_body e r"
  unfolding get_printer_info_def by (rule wrapped_request_result)

lemma start_print_result:
  "\<exists>r c'. start_print e filename c = (Inr r, c') \<and> dict_or_host_body e r"
  unfolding start_print_def
  by (rule except_error_dict_result)
     (auto simp: dict_or_host_body_def error_dict_def split: if_splits dest: make_request_result)

lemma pause_print_result:
  "\<exists>r c'. pause_print e c = (Inr r, c') \<and> dict_or_host_body e r"
  unfolding pause_print_def by (rule wrapped_request_result)

lemma resume_print_result:
  "\<exists>r c'. resume_print e c = (Inr r, c') \<and> dict_or_host_body e r"
  unfolding resume_print_def by (rule wrapped_request_result)

lemma cancel_print_result:
  "\<exists>r c'. cancel_print e c = (Inr r, c') \<and> dict_or_host_body e r"
  unfolding cancel_print_def by (rule wrapped_request_result)

lemma send_gcode_raised:
  "sanitize_gcode gcode \<noteq> [] \<and> \<not> test_mode c
   \<and> make_request e ''POST'' ''/printer/gcode/script''
         (Some (JObj [(''script'', JStr (sanitize_gcode gcode))])) c = (Inl err, c1)
   \<longrightarrow> send_gcode e gcode c = (Inr (error_dict err), c1)"
  by (simp add: send_gcode_def except_error_dict_unfold Let_def)

lemma get_printer_status_raised:
  "\<not> test_mode c
   \<and> make_request e ''GET''
         ''/printer/objects/query?extruder&heater_bed&fan&toolhead&print_stats'' None c
       = (Inl err, c1)
   \<longrightarrow> get_printer_status e c = (Inr (error_dict err), c1)"
  by (simp add: get_printer_status_def except_error_dict_unfold)

lemma get_printer_info_raised:
  "make_request e ''GET'' ''/printer/info'' None c = (Inl err, c1)
   \<longrightarrow> get_printer_info e c = (Inr (error_dict err), c1)"
  by (simp add: get_printer_info_def except_error_dict_unfold)

lemma start_print_raised:
  "validate_filename filename
   \<and> make_request e ''POST'' ''/printer/print/start''
         (Some (JObj [(''filename'', JStr filename)])) c = (Inl err, c1)
   \<longrightarrow> start_print e filename c = (Inr (error_dict err), c1)"
  by (simp add: start_print_def except_error_dict_unfold)

lemma pause_print_raised:
  "make_request e ''POST'' ''/printer/print/pause'' None c = (Inl err, c1)
   \<longrightarrow> pause_print e c = (Inr (error_dict err), c1)"
  by (simp add: pause_print_def except_error_dict_unfold)

lemma resume_print_raised:
  "make_request e ''POST'' ''/printer/print/resume'' None c = (Inl err, c1)
   \<longrightarrow> resume_print e c = (Inr (error_dict err), c1)"
  by (simp add: resume_print_def except_error_dict_unfold)

lemma cancel_print_raised:
  "make_request e ''POST'' ''/printer/print/cancel'' None c = (Inl err, c1)
   \<longrightarrow> cancel_print e c = (Inr (error_dict err), c1)"
  by (simp add: cancel_print_def except_error_dict_unfold)

lemma wrapped_request_all_fail:
  assumes "\<And>k m u d. \<exists>x. http e k m u d = Failed x"
  shows "\<exists>r c'. except_error_dict (make_request e m ep d) c = (Inr r, c') \<and> has_error_key r"
proof (rule except_error_dict_result)
  fix r c' assume "make_request e m ep d c = (Inr r, c')"
  with assms show "has_error_key r" by (rule make_request_all_fail)
next
  fix err show "has_error_key (error_dict err)" by (rule error_dict_has_key)
qed

lemma operations_all_fail:
  "(\<forall>k m u d. \<exists>x. http e k m u d = Failed x) \<and> \<not> test_mode c
   \<longrightarrow> (\<exists>r c'. send_gcode e gcode c = (Inr r, c') \<and> has_error_key r)
     \<and> (\<exists>r c'. get_printer_status e c = (Inr r, c') \<and> has_error_key r)
     \<and> (\<exists>r c'. get_printer_info e c = (Inr r, c') \<and> has_error_key r)
     \<and> (\<exists>r c'. start_print e filename c = (Inr r, c') \<and> has_error_key r)
     \<and> (\<exists>r c'. pause_print e c = (Inr r, c') \<and> has_error_key r)
     \<and> (\<exists>r c'. resume_print e c = (Inr r, c') \<and> has_error_key r)
     \<and> (\<exists>r c'. cancel_print e c = (Inr r, c') \<and> has_error_key r)"
proof (intro impI)
  assume a: "(\<forall>k m u d. \<exists>x. http e k m u d = Failed x) \<and> \<not> test_mode c"
  then have f: "\<And>k m u d. \<exists>x. http e k m u d = Failed x" and t: "\<not> test_mode c" by auto
  note w = wrapped_request_all_fail [OF f]
  have 1: "\<exists>r c'. send_gcode e gcode c = (Inr r, c') \<and> has_error_key r"
  proof (cases "sanitize_gcode gcode = []")
    case True
    then show ?thesis by (simp add: send_gcode_def except_error_dict_unfold)
  next
    case False
    obtain r c' where
      "except_error_dict (make_request e ''POST'' ''/printer/gcode/script''
          (Some (JObj [(''script'', JStr (sanitize_gcode gcode))]))) c = (Inr r, c')"
      and "has_error_key r"
      using w by blast
    with False t show ?thesis
      by (simp add: send_gcode_def except_error_dict_unfold Let_def)
  qed
  have 2: "\<exists>r c'. get_printer_status e c = (Inr r, c') \<and> has_error_key r"
  proof -
    obtain r c' where
      "except_error_dict (make_request e ''GET''
          ''/printer/objects/query?extruder&heater_bed&fan&toolhead&print_stats'' None) c
         = (Inr r, c')"
      and "has_error_key r"
      using w by blast
    with t show ?thesis by (simp add: get_printer_status_def except_error_dict_unfold)
  qed
  have 4: "\<exists>r c'. start_print e filename c = (Inr r, c') \<and> has_error_key r"
  proof (cases "validate_filename filename")
    case False
    then show ?thesis by (simp add: start_print_def except_error_dict_unfold)
  next
    case True
    obtain r c' where
      "except_error_dict (make_request e ''POST'' ''/printer/print/start''
          (Some (JObj [(''filename'', JStr filename)]))) c = (Inr r, c')"
      and "has_error_key r"
      using w by blast
    with True show ?thesis by (simp add: start_print_def except_error_dict_unfold)
  qed
  from 1 2 4 w
  show "(\<exists>r c'. send_gcode e gcode c = (Inr r, c') \<and> has_error_key r)
     \<and> (\<exists>r c'. get_printer_status e c = (Inr r, c') \<and> has_error_key r)
     \<and> (\<exists>r c'. get_printer_info e c = (Inr r, c') \<and> has_error_key r)
     \<and> (\<exists>r c'. start_print e filename c = (Inr r, c') \<and> has_error_key r)
     \<and> (\<exists>r c'. pause_print e c = (Inr r, c') \<and> has_error_key r)
     \<and> (\<exists>r c'. resume_print e c = (Inr r, c') \<and> has_error_key r)
     \<and> (\<exists>r c'. cancel_print e c = (Inr r, c') \<and> has_error_key r)"
    unfolding get_printer_info_def pause_print_def resume_print_def cancel_print_def
    by (intro conjI)
qed

lemma refused_script:
  "make_request host_down ''POST'' ''/printer/gcode/script'' (Some (JObj [(''script'', JStr (sanitize_gcode ''G28''))])) (new_moonraker_client False 2 1)
   = (Inl (Raised ClientError ''Cannot connect to host''),
      ((new_moonraker_client False 2 1)
          \<lparr>rate_limiter := \<lparr>max_requests = 20, time_window = 1, requests = [0]\<rparr>,
            clock_reads := 1, http_count := 2\<rparr>))"
  by code_simp

lemma refused_status:
  "make_request host_down ''GET'' ''/printer/objects/query?extruder&heater_bed&fan&toolhead&print_stats'' None (new_moonraker_client False 2 1)
   = (Inl (Raised ClientError ''Cannot connect to host''),
      ((new_moonraker_client False 2 1)
          \<lparr>rate_limiter := \<lparr>max_requests = 20, time_window = 1, requests = [0]\<rparr>,
            clock_reads := 1, http_count := 2\<rparr>))"
  by code_simp

lemma refused_info:
  "make_request host_down ''GET'' ''/printer/info'' None (new_moonraker_client False 2 1)
   = (Inl (Raised ClientError ''Cannot connect to host''),
      ((new_moonraker_client False 2 1)
          \<lparr>rate_limiter := \<lparr>max_requests = 20, time_window = 1, requests = [0]\<rparr>,
            clock_reads := 1, http_count := 2\<rparr>))"
  by code_simp

lemma refused_start:
  "make_request host_down ''POST'' ''/printer/print/start'' (Some (JObj [(''filename'', JStr ''job.gcode'')])) (new_moonraker_client False 2 1)
   = (Inl (Raised ClientError ''Cannot connect to host''),
      ((new_moonraker_client False 2 1)
          \<lparr>rate_limiter := \<lparr>max_requests = 20, time_window = 1, requests = [0]\<rparr>,
            clock_reads := 1, http_count := 2\<rparr>))"
  by code_simp

lemma refused_pause:
  "make_request host_down ''POST'' ''/printer/print/pause'' None (new_moonraker_client False 2 1)
   = (Inl (Raised ClientError ''Cannot connect to host''),
      ((new_moonraker_client False 2 1)
          \<lparr>rate_limiter := \<lparr>max_requests = 20, time_window = 1, requests = [0]\<rparr>,
            clock_reads := 1, http_count := 2\<rparr>))"
  by code_simp

lemma refused_resume:
  "make_request host_down ''POST'' ''/printer/print/resume'' None (new_moonraker_client False 2 1)
   = (Inl (Raised ClientError ''Cannot connect to host''),
      ((new_moonraker_client False 2 1)
          \<lparr>rate_limiter := \<lparr>max_requests = 20, time_window = 1, requests = [0]\<rparr>,
            clock_reads := 1, http_count := 2\<rparr>))"
  by code_simp

lemma refused_cancel:
  "make_request host_down ''POST'' ''/printer/print/cancel'' None (new_moonraker_client False 2 1)
   = (Inl (Raised ClientError ''Cannot connect to host''),
      ((new_moonraker_client False 2 1)
          \<lparr>rate_limiter := \<lparr>max_requests = 20, time_window = 1, requests = [0]\<rparr>,
            clock_reads := 1, http_count := 2\<rparr>))"
  by code_simp

text \<open>
  C9, as the code has it.  Each of the seven operations of the client returns and
  raises nothing, and what it returns is a dictionary or else the body of a response
  of the host, as it was decoded.  Whenever \<open>_make_request\<close> raises inside an
  operation, for whatever reason, the operation returns the dictionary
  \<open>{"error": str(e)}\<close>, which has the key \<open>error\<close>.  When every HTTP exchange fails,
  whether with an error that is retried until the attempts run out or with one that is
  raised at once, each operation returns a dictionary with the key \<open>error\<close>.
\<close>

theorem domain_operations_never_raise:
  "(\<exists>r c'. send_gcode e gcode c = (Inr r, c') \<and> dict_or_host_body e r)
   \<and> (\<exists>r c'. get_printer_status e c = (Inr r, c') \<and> dict_or_host_body e r)
   \<and> (\<exists>r c'. get_printer_info e c = (Inr r, c') \<and> dict_or_host_body e r)
   \<and> (\<exists>r c'. start_print e filename c = (Inr r, c') \<and> dict_or_host_body e r)
   \<and> (\<exists>r c'. pause_print e c = (Inr r, c') \<and> dict_or_host_body e r)
   \<and> (\<exists>r c'. resume_print e c = (Inr r, c') \<and> dict_or_host_body e r)
   \<and> (\<exists>r c'. cancel_print e c = (Inr r, c') \<and> dict_or_host_body e r)
   \<and> (sanitize_gcode gcode \<noteq> [] \<and> \<not> test_mode c
        \<and> make_request e ''POST'' ''/printer/gcode/script''
              (Some (JObj [(''script'', JStr (sanitize_gcode gcode))])) c = (Inl err, c1)
        \<longrightarrow> send_gcode e gcode c = (Inr (error_dict err), c1))
   \<and> (\<not> test_mode c
        \<and> make_request e ''GET''
              ''/printer/objects/query?extruder&heater_bed&fan&toolhead&print_stats'' None c
            = (Inl err, c1)
        \<longrightarrow> get_printer_status e c = (Inr (error_dict err), c1))
   \<and> (make_request e ''GET'' ''/printer/info'' None c = (Inl err, c1)
        \<longrightarrow> get_printer_info e c = (Inr (error_dict err), c1))
   \<and> (validate_filename filename
        \<and> make_request e ''POST'' ''/printer/print/start''
              (Some (JObj [(''filename'', JStr filename)])) c = (Inl err, c1)
        \<longrightarrow> start_print e filename c = (Inr (error_dict err), c1))
   \<and> (make_request e ''POST'' ''/printer/print/pause'' None c = (Inl err, c1)
        \<longrightarrow> pause_print e c = (Inr (error_dict err), c1))
   \<and> (make_request e ''POST'' ''/printer/print/resume'' None c = (Inl err, c1)
        \<longrightarrow> resume_print e c = (Inr (error_dict err), c1))
   \<and> (make_request e ''POST'' ''/printer/print/cancel'' None c = (Inl err, c1)
        \<longrightarrow> cancel_print e c = (Inr (error_dict err), c1))
   \<and> has_error_key (error_dict err)
   \<and> ((\<forall>k m u d. \<exists>x. http e k m u d = Failed x) \<and> \<not> test_mode c
        \<longrightarrow> (\<exists>r c'. send_gcode e gcode c = (Inr r, c') \<and> has_error_key r)
          \<and> (\<exists>r c'. get_printer_status e c = (Inr r, c') \<and> has_error_key r)
          \<and> (\<exists>r c'. get_printer_info e c = (Inr r, c') \<and> has_error_key r)
          \<and> (\<exists>r c'. start_print e filename c = (Inr r, c') \<and> has_error_key r)
          \<and> (\<exists>r c'. pause_print e c = (Inr r, c') \<and> has_error_key r)
          \<and> (\<exists>r c'. resume_print e c = (Inr r, c') \<and> has_error_key r)
          \<and> (\<exists>r c'. cancel_print e c = (Inr r, c') \<and> has_error_key r))"
  by (intro conjI)
     (rule send_gcode_result, rule get_printer_status_result, rule get_printer_info_result,
      rule start_print_result, rule pause_print_result, rule resume_print_result,
      rule cancel_print_result,
      rule send_gcode_raised, rule get_printer_status_raised, rule get_printer_info_raised,
      rule start_print_raised, rule pause_print_raised, rule resume_print_raised,
      rule cancel_print_raised, rule error_dict_has_key, rule operations_all_fail)

theorem domain_operations_never_raise_witness:
  "send_gcode host_down ''G28'' (new_moonraker_client False 2 1)
       = (Inr (error_dict (Raised ClientError ''Cannot connect to host'')),
          ((new_moonraker_client False 2 1)
          \<lparr>rate_limiter := \<lparr>max_requests = 20, time_window = 1, requests = [0]\<rparr>,
            clock_reads := 1, http_count := 2\<rparr>))
   \<and> get_printer_status host_down (new_moonraker_client False 2 1)
       = (Inr (error_dict (Raised ClientError ''Cannot connect to host'')),
          ((new_moonraker_client False 2 1)
          \<lparr>rate_limiter := \<lparr>max_requests = 20, time_window = 1, requests = [0]\<rparr>,
            clock_reads := 1, http_count := 2\<rparr>))
   \<and> get_printer_info host_down (new_moonraker_client False 2 1)
       = (Inr (error_dict (Raised ClientError ''Cannot connect to host'')),
          ((new_moonraker_client False 2 1)
          \<lparr>rate_limiter := \<lparr>max_requests = 20, time_window = 1, requests = [0]\<rparr>,
            clock_reads := 1, http_count := 2\<rparr>))
   \<and> start_print host_down ''job.gcode'' (new_moonraker_client False 2 1)
       = (Inr (error_dict (Raised ClientError ''Cannot connect to host'')),
          ((new_moonraker_client False 2 1)
          \<lparr>rate_limiter := \<lparr>max_requests = 20, time_window = 1, requests = [0]\<rparr>,
            clock_reads := 1, http_count := 2\<rparr>))
   \<and> pause_print host_down (new_moonraker_client False 2 1)
       = (Inr (error_dict (Raised ClientError ''Cannot connect to host'')),
          ((new_moonraker_client False 2 1)
          \<lparr>rate_limiter := \<lparr>max_requests = 20, time_window = 1, requests = [0]\<rparr>,
            clock_reads := 1, http_count := 2\<rparr>))
   \<and> resume_print host_down (new_moonraker_client False 2 1)
       = (Inr (error_dict (Raised ClientError ''Cannot connect to host'')),
          ((new_moonraker_client False 2 1)
          \<lparr>rate_limiter := \<lparr>max_requests = 20, time_window = 1, requests = [0]\<rparr>,
            clock_reads := 1, http_count := 2\<rparr>))
   \<and> cancel_print host_down (new_moonraker_client False 2 1)
       = (Inr (error_dict (Raised ClientError ''Cannot connect to host'')),
          ((new_moonraker_client False 2 1)
          \<lparr>rate_limiter := \<lparr>max_requests = 20, time_window = 1, requests = [0]\<rparr>,
            clock_reads := 1, http_count := 2\<rparr>))
   \<and> error_dict (Raised ClientError ''Cannot connect to host'') = JObj [(''error'', JStr ''Cannot connect to host'')]
   \<and> (\<exists>r c'. cancel_print host_down (new_moonraker_client False 2 1) = (Inr r, c') \<and> has_error_key r)"
proof -
  note t = domain_operations_never_raise [of host_down "''G28''" "(new_moonraker_client False 2 1)" "''job.gcode''"
      "(Raised ClientError ''Cannot connect to host'')"
      "((new_moonraker_client False 2 1)
          \<lparr>rate_limiter := \<lparr>max_requests = 20, time_window = 1, requests = [0]\<rparr>,
            clock_reads := 1, http_count := 2\<rparr>)"]
  have g: "sanitize_gcode ''G28'' \<noteq> []" by code_simp
  have v: "validate_filename ''job.gcode''" by code_simp
  have m: "\<not> test_mode (new_moonraker_client False 2 1)" by (simp add: new_moonraker_client_def)
  have f: "\<forall>k m u d. \<exists>x. http host_down k m u d = Failed x" by (simp add: host_down_def)
  from t g m refused_script have 1: "send_gcode host_down ''G28'' (new_moonraker_client False 2 1)
       = (Inr (error_dict (Raised ClientError ''Cannot connect to host'')),
          ((new_moonraker_client False 2 1)
          \<lparr>rate_limiter := \<lparr>max_requests = 20, time_window = 1, requests = [0]\<rparr>,
            clock_reads := 1, http_count := 2\<rparr>))"
    by blast
  from t m refused_status have 2: "get_printer_status host_down (new_moonraker_client False 2 1)
       = (Inr (error_dict (Raised ClientError ''Cannot connect to host'')),
          ((new_moonraker_client False 2 1)
          \<lparr>rate_limiter := \<lparr>max_requests = 20, time_window = 1, requests = [0]\<rparr>,
            clock_reads := 1, http_count := 2\<rparr>))"
    by blast
  from t refused_info have 3: "get_printer_info host_down (new_moonraker_client False 2 1)
       = (Inr (error_dict (Raised ClientError ''Cannot connect to host'')),
          ((new_moonraker_client False 2 1)
          \<lparr>rate_limiter := \<lparr>max_requests = 20, time_window = 1, requests = [0]\<rparr>,
            clock_reads := 1, http_count := 2\<rparr>))"
    by blast
  from t v refused_start have 4: "start_print host_down ''job.gcode'' (new_moonraker_client False 2 1)
       = (Inr (error_dict (Raised ClientError ''Cannot connect to host'')),
          ((new_moonraker_client False 2 1)
          \<lparr>rate_limiter := \<lparr>max_requests = 20, time_window = 1, requests = [0]\<rparr>,
            clock_reads := 1, http_count := 2\<rparr>))"
    by blast
  from t refused_pause have 5: "pause_print host_down (new_moonraker_client False 2 1)
       = (Inr (error_dict (Raised ClientError ''Cannot connect to host'')),
          ((new_moonraker_client False 2 1)
          \<lparr>rate_limiter := \<lparr>max_requests = 20, time_window = 1, requests = [0]\<rparr>,
            clock_reads := 1, http_count := 2\<rparr>))"
    by blast
  from t refused_resume have 6: "resume_print host_down (new_moonraker_client False 2 1)
       = (Inr (error_dict (Raised ClientError ''Cannot connect to host'')),
          ((new_moonraker_client False 2 1)
          \<lparr>rate_limiter := \<lparr>max_requests = 20, time_window = 1, requests = [0]\<rparr>,
            clock_reads := 1, http_count := 2\<rparr>))"
    by blast
  from t refused_cancel have 7: "cancel_print host_down (new_moonraker_client False 2 1)
       = (Inr (error_dict (Raised ClientError ''Cannot connect to host'')),
          ((new_moonraker_client False 2 1)
          \<lparr>rate_limiter := \<lparr>max_requests = 20, time_window = 1, requests = [0]\<rparr>,
            clock_reads := 1, http_count := 2\<rparr>))"
    by blast
  have 8: "error_dict (Raised ClientError ''Cannot connect to host'') = JObj [(''error'', JStr ''Cannot connect to host'')]"
    by (simp add: error_dict_def)
  from t f m have 9: "\<exists>r c'. cancel_print host_down (new_moonraker_client False 2 1) = (Inr r, c') \<and> has_error_key r"
    by blast
  from 1 2 3 4 5 6 7 8 9 show ?thesis by (intro conjI)
qed

text \<open>
  C9 as written has every operation return a dictionary.  The body of a response is
  returned as \<open>response.json()\<close> decodes it: when the host answers with the JSON list
  \<open>[1, 2]\<close>, \<open>get_printer_info\<close> returns that list.
\<close>

theorem domain_operations_list_body_counterexample:
  "get_printer_info host_answers_list (new_moonraker_client False 2 1)
     = (Inr (JArr [JNum 1, JNum 2]),
        (new_moonraker_client False 2 1)
          \<lparr>rate_limiter := \<lparr>max_requests = 20, time_window = 1, requests = [0]\<rparr>,
            clock_reads := 1, http_count := 1\<rparr>)
   \<and> \<not> is_dict (JArr [JNum 1, JNum 2])"
  by code_simp

section \<open>GCodeTranslator: the macro registry\<close>

lemma make_request_clock:
  "clock_reads (snd (make_request e m u d c)) = Suc (clock_reads c)"
proof -
  obtain r rl where a: "acquire (clock e (clock_reads c)) (rate_limiter c) = (r, rl)"
    by (cases "acquire (clock e (clock_reads c)) (rate_limiter c)")
  show ?thesis
  proof (cases r)
    case (Inl err)
    with a show ?thesis by (simp add: make_request_def)
  next
    case (Inr slept)
    show ?thesis
    proof (cases "urljoin e (base_url c) u")
      case (Inl err)
      with a Inr show ?thesis by (simp add: make_request_def)
    next
      case (Inr url)
      with a \<open>r = Inr slept\<close> show ?thesis
        by (simp add: make_request_def request_attempts_keeps)
    qed
  qed
qed

lemma check_sets_flag: "macros_checked (fst (check_available_macros e tc))"
  by (cases tc) (simp add: check_available_macros_def split: prod.split sum.split)

lemma check_when_checked: "macros_checked (fst tc) \<Longrightarrow> check_available_macros e tc = tc"
  by (cases tc) (simp add: check_available_macros_def)

lemma check_repeated: "(check_available_macros e ^^ Suc n) tc = check_available_macros e tc"
proof (induction n)
  case 0
  then show ?case by simp
next
  case (Suc n)
  have "(check_available_macros e ^^ Suc (Suc n)) tc
          = check_available_macros e ((check_available_macros e ^^ Suc n) tc)"
    by simp
  also have "\<dots> = check_available_macros e (check_available_macros e tc)"
    by (simp only: Suc)
  also have "\<dots> = check_available_macros e tc"
    by (rule check_when_checked) (rule check_sets_flag)
  finally show ?case .
qed

lemma check_snd:
  "\<not> macros_checked (fst tc) \<Longrightarrow>
   snd (check_available_macros e tc)
     = snd (make_request e ''GET'' ''/printer/objects/query?configfile'' None (snd tc))"
  by (cases tc) (simp add: check_available_macros_def split: prod.split sum.split)

lemma check_query_raised:
  "\<not> macros_checked (fst tc) \<Longrightarrow>
   fst (make_request e ''GET'' ''/printer/objects/query?configfile'' None (snd tc)) = Inl err \<Longrightarrow>
   available_macros (fst (check_available_macros e tc)) = available_macros (fst tc)"
  by (cases tc) (auto simp: check_available_macros_def split: prod.split sum.split)

lemma host_down_query:
  "make_request host_down ''GET'' ''/printer/objects/query?configfile'' None
     (new_moonraker_client False 2 1)
   = (Inl (Raised ClientError ''Cannot connect to host''),
      (new_moonraker_client False 2 1)
        \<lparr>rate_limiter := \<lparr>max_requests = 20, time_window = 1, requests = [0]\<rparr>,
          clock_reads := 1, http_count := 2\<rparr>)"
  by code_simp

text \<open>
  C7.  After any call of \<open>check_available_macros\<close> the flag \<open>macros_checked\<close> is
  set; a call that finds it set returns at once and changes nothing, so that any
  number of calls leave what the first one left; the first call makes one call of
  \<open>_make_request\<close> (counted by the clock reading of its rate limiter); and when that
  query raises, the registry is what it was before, empty for a new translator.
\<close>

theorem macros_checked_once:
  "macros_checked (fst (check_available_macros e tc))
   \<and> (check_available_macros e ^^ Suc n) tc = check_available_macros e tc
   \<and> (macros_checked (fst tc) \<longrightarrow> check_available_macros e tc = tc)
   \<and> (\<not> macros_checked (fst tc) \<longrightarrow>
        clock_reads (snd (check_available_macros e tc)) = Suc (clock_reads (snd tc)))
   \<and> (\<not> macros_checked (fst tc)
        \<and> fst (make_request e ''GET'' ''/printer/objects/query?configfile'' None (snd tc)) = Inl err
        \<longrightarrow> available_macros (fst (check_available_macros e tc)) = available_macros (fst tc))"
proof (intro conjI impI)
  show "macros_checked (fst (check_available_macros e tc))" by (rule check_sets_flag)
  show "(check_available_macros e ^^ Suc n) tc = check_available_macros e tc"
    by (rule check_repeated)
  show "check_available_macros e tc = tc" if "macros_checked (fst tc)"
    using that by (rule check_when_checked)
  show "clock_reads (snd (check_available_macros e tc)) = Suc (clock_reads (snd tc))"
    if "\<not> macros_checked (fst tc)"
    using that by (simp add: check_snd make_request_clock)
  show "available_macros (fst (check_available_macros e tc)) = available_macros (fst tc)"
    if "\<not> macros_checked (fst tc)
        \<and> fst (make_request e ''GET'' ''/printer/objects/query?configfile'' None (snd tc)) = Inl err"
    using that check_query_raised [of tc e err] by blast
qed

theorem macros_checked_once_witness:
  "\<not> macros_checked (fst (new_gcode_translator, new_moonraker_client False 2 1))
   \<and> fst (make_request host_down ''GET'' ''/printer/objects/query?configfile'' None
            (new_moonraker_client False 2 1)) = Inl (Raised ClientError ''Cannot connect to host'')
   \<and> macros_checked (fst (check_available_macros host_down
                             (new_gcode_translator, new_moonraker_client False 2 1)))
   \<and> available_macros (fst (check_available_macros host_down
                               (new_gcode_translator, new_moonraker_client False 2 1))) = {}
   \<and> clock_reads (snd (check_available_macros host_down
                          (new_gcode_translator, new_moonraker_client False 2 1))) = 1
   \<and> (check_available_macros host_down ^^ Suc 2)
         (new_gcode_translator, new_moonraker_client False 2 1)
       = check_available_macros host_down (new_gcode_translator, new_moonraker_client False 2 1)
   \<and> macros_checked (fst (new_gcode_translator\<lparr>macros_checked := True\<rparr>,
                           new_moonraker_client False 2 1))
   \<and> check_available_macros host_down
         (new_gcode_translator\<lparr>macros_checked := True\<rparr>, new_moonraker_client False 2 1)
       = (new_gcode_translator\<lparr>macros_checked := True\<rparr>, new_moonraker_client False 2 1)"
proof -
  let ?tc = "(new_gcode_translator, new_moonraker_client False 2 1)"
  let ?tc2 = "(new_gcode_translator\<lparr>macros_checked := True\<rparr>, new_moonraker_client False 2 1)"
  have u: "\<not> macros_checked (fst ?tc)" by (simp add: new_gcode_translator_def)
  have q: "fst (make_request host_down ''GET'' ''/printer/objects/query?configfile'' None (snd ?tc))
             = Inl (Raised ClientError ''Cannot connect to host'')"
    by (simp add: host_down_query)
  have c0: "clock_reads (snd ?tc) = 0" by (simp add: new_moonraker_client_def)
  have a0: "available_macros (fst ?tc) = {}" by (simp add: new_gcode_translator_def)
  note t = macros_checked_once [of host_down ?tc 2 "Raised ClientError ''Cannot connect to host''"]
  from t have 1: "macros_checked (fst (check_available_macros host_down ?tc))" by blast
  from t have 2: "(check_available_macros host_down ^^ Suc 2) ?tc = check_available_macros host_down ?tc"
    by blast
  from t u have 3: "clock_reads (snd (check_available_macros host_down ?tc)) = Suc (clock_reads (snd ?tc))"
    by blast
  from t u q have 4: "available_macros (fst (check_available_macros host_down ?tc)) = available_macros (fst ?tc)"
    by blast
  have k: "macros_checked (fst ?tc2)" by simp
  note t2 = macros_checked_once [of host_down ?tc2 0 "Raised ClientError ''Cannot connect to host''"]
  from t2 k have 5: "check_available_macros host_down ?tc2 = ?tc2" by blast
  from u q 1 2 3 4 c0 a0 k 5 show ?thesis by simp
qed

section \<open>GCodeTranslator: the translation table\<close>

lemma scan_first_match:
  assumes "i < length rules"
    and "\<forall>j<i. re_match (fst (rules ! j)) gcode = None"
    and "re_match (fst (rules ! i)) gcode = Some m"
    and "snd (rules ! i) = StaticCommand text
         \<or> (\<exists>f. snd (rules ! i) = Transform f \<and> f m = Inr text)"
  shows "scan_translations rules gcode = Some text"
  using assms
proof (induction rules arbitrary: i)
  case Nil
  then show ?case by simp
next
  case (Cons rule rules)
  obtain pattern replacement where rule: "rule = (pattern, replacement)" by (cases rule)
  show ?case
  proof (cases i)
    case 0
    with Cons.prems rule show ?thesis by auto
  next
    case (Suc k)
    from Cons.prems(2) Suc have none: "re_match pattern gcode = None"
      using rule by auto
    have "scan_translations rules gcode = Some text"
    proof (rule Cons.IH [of k])
      show "k < length rules" using Cons.prems(1) Suc by simp
      show "\<forall>j<k. re_match (fst (rules ! j)) gcode = None"
        using Cons.prems(2) Suc by auto
      show "re_match (fst (rules ! k)) gcode = Some m" using Cons.prems(3) Suc by simp
      show "snd (rules ! k) = StaticCommand text
            \<or> (\<exists>f. snd (rules ! k) = Transform f \<and> f m = Inr text)"
        using Cons.prems(4) Suc by simp
    qed
    with none rule show ?thesis by simp
  qed
qed

lemma translate_by_table:
  assumes "strip gcode \<noteq> []"
    and "upper (strip gcode) \<noteq> ''M701''" and "upper (strip gcode) \<noteq> ''M702''"
    and "scan_translations translations_tbl (strip gcode) = Some text"
  shows "fst (translate_gcode e gcode tc) = Some text"
proof -
  from assms(1) have "gcode \<noteq> []" by (auto simp: strip_def)
  with assms show ?thesis by (simp add: translate_gcode_def Let_def)
qed

lemma m420: "strip ''M420 S1'' = ''M420 S1''" by code_simp
lemma m420u: "upper ''M420 S1'' = ''M420 S1''" by code_simp
lemma m420s: "scan_translations translations_tbl ''M420 S1'' = Some ''BED_MESH_PROFILE LOAD=default''" by code_simp
lemma m421: "strip ''M421 I10 J5 Z0.1'' = ''M421 I10 J5 Z0.1''" by code_simp
lemma m421u: "upper ''M421 I10 J5 Z0.1'' = ''M421 I10 J5 Z0.1''" by code_simp
lemma m421s: "scan_translations translations_tbl ''M421 I10 J5 Z0.1'' = Some ''BED_MESH_CALIBRATE MESH_MIN=10,5 MESH_MAX=10,5''" by code_simp

lemma m421_rule0: "re_match (fst (translations_tbl ! 0)) ''M421 I10 J5 Z0.1'' = None" by code_simp
lemma m421_rule1: "re_match (fst (translations_tbl ! 1)) ''M421 I10 J5 Z0.1'' = None" by code_simp
lemma m421_rule2: "re_match (fst (translations_tbl ! 2)) ''M421 I10 J5 Z0.1'' = None" by code_simp
lemma m421_rule3:
  "re_match (fst (translations_tbl ! 3)) ''M421 I10 J5 Z0.1'' = Some [''10'', ''5'', ''0.1'']"
  by code_simp

lemma m421_action:
  "\<exists>f. snd (translations_tbl ! 3) = Transform f
       \<and> f [''10'', ''5'', ''0.1''] = Inr ''BED_MESH_CALIBRATE MESH_MIN=10,5 MESH_MAX=10,5''"
  by (simp add: translations_tbl_def group_def)

text \<open>
  C8.  For a command that is not blank and is not one of the two filament commands
  handled before the table, the first rule of the table whose pattern matches decides
  the translation: its static text, or its transform applied to the captured groups.
  \<open>M420 S1\<close> translates to \<open>BED_MESH_PROFILE LOAD=default\<close> and
  \<open>M421 I10 J5 Z0.1\<close> to \<open>BED_MESH_CALIBRATE MESH_MIN=10,5 MESH_MAX=10,5\<close>, in every
  environment and state.
\<close>

theorem translate_first_match_wins:
  "(strip gcode \<noteq> [] \<and> upper (strip gcode) \<noteq> ''M701'' \<and> upper (strip gcode) \<noteq> ''M702''
      \<and> i < length translations_tbl
      \<and> (\<forall>j<i. re_match (fst (translations_tbl ! j)) (strip gcode) = None)
      \<and> re_match (fst (translations_tbl ! i)) (strip gcode) = Some m
      \<and> (snd (translations_tbl ! i) = StaticCommand text
           \<or> (\<exists>f. snd (translations_tbl ! i) = Transform f \<and> f m = Inr text))
    \<longrightarrow> fst (translate_gcode e gcode tc) = Some text)
   \<and> fst (translate_gcode e ''M420 S1'' tc) = Some ''BED_MESH_PROFILE LOAD=default''
   \<and> fst (translate_gcode e ''M421 I10 J5 Z0.1'' tc)
       = Some ''BED_MESH_CALIBRATE MESH_MIN=10,5 MESH_MAX=10,5''"
proof (intro conjI impI)
  assume a: "strip gcode \<noteq> [] \<and> upper (strip gcode) \<noteq> ''M701'' \<and> upper (strip gcode) \<noteq> ''M702''
      \<and> i < length translations_tbl
      \<and> (\<forall>j<i. re_match (fst (translations_tbl ! j)) (strip gcode) = None)
      \<and> re_match (fst (translations_tbl ! i)) (strip gcode) = Some m
      \<and> (snd (translations_tbl ! i) = StaticCommand text
           \<or> (\<exists>f. snd (translations_tbl ! i) = Transform f \<and> f m = Inr text))"
  then have "scan_translations translations_tbl (strip gcode) = Some text"
    using scan_first_match [of i translations_tbl "strip gcode" m "text"] by blast
  with a show "fst (translate_gcode e gcode tc) = Some text"
    using translate_by_table [of gcode "text" e tc] by blast
next
  show "fst (translate_gcode e ''M420 S1'' tc) = Some ''BED_MESH_PROFILE LOAD=default''"
    by (rule translate_by_table) (simp_all only: m420 m420u m420s, simp_all)
next
  show "fst (translate_gcode e ''M421 I10 J5 Z0.1'' tc)
       = Some ''BED_MESH_CALIBRATE MESH_MIN=10,5 MESH_MAX=10,5''"
    by (rule translate_by_table) (simp_all only: m421 m421u m421s, simp_all)
qed

theorem translate_first_match_wins_witness:
  "re_match (fst (translations_tbl ! 2)) ''M421 I10 J5 Z0.1'' = None
   \<and> re_match (fst (translations_tbl ! 3)) ''M421 I10 J5 Z0.1'' = Some [''10'', ''5'', ''0.1'']
   \<and> fst (translate_gcode host_down '' M421 I10 J5 Z0.1 ''
             (new_gcode_translator, new_moonraker_client False 2 1))
       = Some ''BED_MESH_CALIBRATE MESH_MIN=10,5 MESH_MAX=10,5''"
proof -
  have s: "strip '' M421 I10 J5 Z0.1 '' = ''M421 I10 J5 Z0.1''" by code_simp
  have before: "\<forall>j<3. re_match (fst (translations_tbl ! j)) ''M421 I10 J5 Z0.1'' = None"
  proof (intro allI impI)
    fix j :: nat assume "j < 3"
    then have "j = 0 \<or> j = 1 \<or> j = 2" by arith
    then show "re_match (fst (translations_tbl ! j)) ''M421 I10 J5 Z0.1'' = None"
      using m421_rule0 m421_rule1 m421_rule2 by blast
  qed
  have len: "3 < length translations_tbl" by (simp add: translations_tbl_def)
  have ne: "''M421 I10 J5 Z0.1'' \<noteq> []" by simp
  have u1: "upper ''M421 I10 J5 Z0.1'' \<noteq> ''M701''" by (simp add: m421u)
  have u2: "upper ''M421 I10 J5 Z0.1'' \<noteq> ''M702''" by (simp add: m421u)
  note t = translate_first_match_wins [of "'' M421 I10 J5 Z0.1 ''" 3 "[''10'', ''5'', ''0.1'']"
      "''BED_MESH_CALIBRATE MESH_MIN=10,5 MESH_MAX=10,5''" host_down
      "(new_gcode_translator, new_moonraker_client False 2 1)"]
  have "fst (translate_gcode host_down '' M421 I10 J5 Z0.1 ''
             (new_gcode_translator, new_moonraker_client False 2 1))
       = Some ''BED_MESH_CALIBRATE MESH_MIN=10,5 MESH_MAX=10,5''"
    using t ne u1 u2 len before m421_rule3 m421_action unfolding s by blast
  with m421_rule2 m421_rule3 show ?thesis by blast
qed

section \<open>TFTSerial: line framing\<close>

text \<open>
  The example of the specification: \<open>G28\nG1 X\<close> and then \<open>10\n\<close> give \<open>G28\<close> on
  the first read and \<open>G1 X10\<close> on the second, and leave the buffer empty.
\<close>

lemma read_line_framing_example:
  "read_lines [Data (''G28'' @ [newline] @ ''G1 X''), Data (''10'' @ [newline])]
     (connected_link new_tft_serial)
   = ([Some ''G28'', Some ''G1 X10''], connected_link new_tft_serial)"
  by code_simp

text \<open>
  C2 at an input with two complete lines in the buffer.  The chunk
  \<open>G28\nG1 X10\nM1\<close> followed by \<open>05\n\<close> gives \<open>G28\<close> and then \<open>M105\<close>: the
  buffer keeps only the text after the last newline, and the complete line \<open>G1 X10\<close>
  between the first line and that remainder is returned by no read.
\<close>

theorem read_line_drops_buffered_line:
  "read_lines [Data (''G28'' @ [newline] @ ''G1 X10'' @ [newline] @ ''M1''),
               Data (''05'' @ [newline])]
     (connected_link new_tft_serial)
   = ([Some ''G28'', Some ''M105''], connected_link new_tft_serial)"
  by code_simp

section \<open>TFTMoonrakerBridge: dispatch of one line\<close>

lemma handler_returns:
  "\<exists>s'. try_except m (\<lambda>err. try_except w (\<lambda>err'. returns ())) s = (Inr (), s')"
proof (cases "m s")
  case (Pair r s1)
  show ?thesis
  proof (cases r)
    case (Inr x)
    with Pair show ?thesis by (simp add: try_except_def)
  next
    case (Inl err)
    obtain r2 s2 where w: "w s1 = (r2, s2)" by (cases "w s1")
    show ?thesis using Pair Inl w
      by (cases r2) (simp_all add: try_except_def returns_def)
  qed
qed

lemma handler_acknowledges:
  assumes "process_gcode_try col e gcode s = (Inl err, s1)"
  shows "process_gcode_with col e gcode s = (Inr (), snd (tft_write_line col ''ok'' s1))"
proof -
  obtain r2 s2 where w: "tft_write_line col ''ok'' s1 = (r2, s2)"
    by (cases "tft_write_line col ''ok'' s1")
  show ?thesis using assms w
    by (cases r2) (simp_all add: process_gcode_with_def try_except_def then_run_def returns_def)
qed

lemma scan_translations_none:
  "list_all (\<lambda>rule. re_match (fst rule) gcode = None) rules \<Longrightarrow>
   scan_translations rules gcode = None"
  by (induction rules) auto

lemma scan_passthrough_none:
  "list_all (\<lambda>pattern. re_match pattern gcode = None) patterns \<Longrightarrow>
   scan_passthrough patterns gcode = None"
  by (induction patterns) auto

lemma translate_unrecognized:
  assumes "unrecognized (strip gcode)"
  shows "translate_gcode e (strip gcode) tc = (None, check_available_macros e tc)"
proof -
  from assms have ne: "strip gcode \<noteq> []" by (simp add: unrecognized_def)
  have t: "scan_translations translations_tbl (strip gcode) = None"
    using assms by (simp add: unrecognized_def scan_translations_none)
  have p: "scan_passthrough passthrough_patterns (strip gcode) = None"
    using assms by (simp add: unrecognized_def scan_passthrough_none)
  from assms have u: "upper (strip gcode) \<noteq> ''M701''" "upper (strip gcode) \<noteq> ''M702''"
    by (simp_all add: unrecognized_def)
  show ?thesis
    using ne t p u by (simp add: translate_gcode_def strip_strip Let_def)
qed

lemma process_unrecognized:
  assumes "unrecognized (strip gcode)"
  shows "process_gcode e gcode b =
           (Inr (), b\<lparr>tft := snd (write_line e ''ok'' (tft b)),
                      moonraker := snd (check_available_macros e (translator b, moonraker b)),
                      translator := fst (check_available_macros e (translator b, moonraker b))\<rparr>)"
proof -
  from assms have ne: "strip gcode \<noteq> []"
    and s1: "\<not> startswith (upper (strip gcode)) ''M115''"
    and s2: "\<not> startswith (upper (strip gcode)) ''M105''"
    by (simp_all add: unrecognized_def)
  obtain t' c' where chk: "check_available_macros e (translator b, moonraker b) = (t', c')"
    by (cases "check_available_macros e (translator b, moonraker b)")
  obtain ok tf where w: "write_line e ''ok'' (tft b) = (ok, tf)"
    by (cases "write_line e ''ok'' (tft b)")
  show ?thesis
    using ne s1 s2 translate_unrecognized [OF assms, of e "(translator b, moonraker b)"] chk w
    by (simp add: process_gcode_def process_gcode_with_def process_gcode_try_def
        bridge_collaborators_def try_except_def then_run_def returns_def Let_def)
qed


lemma write_line_written:
  "written (snd (write_line e data t)) = written t
   \<or> written (snd (write_line e data t))
       = written t @ [(if length data > 1000 then take 1000 data else data) @ [newline]]"
proof (cases "\<not> connected_flag t \<or> \<not> serial_present t")
  case True
  then show ?thesis by (simp add: write_line_def)
next
  case False
  define line where "line = (if length data > 1000 then take 1000 data else data) @ [newline]"
  show ?thesis
  proof (cases "serial_write e (write_count t) line")
    case Done
    with False show ?thesis by (simp add: write_line_def Let_def line_def)
  next
    case (IOFailed err)
    obtain cls msg where "err = Raised cls msg" by (cases err)
    with False IOFailed show ?thesis by (simp add: write_line_def Let_def line_def)
  qed
qed

lemma write_line_done:
  assumes "connected_flag t" and "serial_present t"
    and "serial_write e (write_count t) (''ok'' @ [newline]) = Done"
  shows "written (snd (write_line e ''ok'' t)) = written t @ [''ok'' @ [newline]]"
  using assms by (simp add: write_line_def Let_def)

lemma m999_unrecognized: "unrecognized (strip ''M999 S1'')"
  by code_simp

lemma failing_translator_raises:
  "process_gcode_try (with_failing_translator (bridge_collaborators host_down False)) host_down
     ''M999 S1'' ((new_bridge False 2 1)\<lparr>tft := connected_link new_tft_serial\<rparr>)
   = (Inl (Raised OtherException ''translator failed''),
      (new_bridge False 2 1)\<lparr>tft := connected_link new_tft_serial\<rparr>)"
  by code_simp


lemma failing_translator_ack:
  "written (tft (snd (tft_write_line (with_failing_translator (bridge_collaborators host_down False))
                        ''ok'' ((new_bridge False 2 1)\<lparr>tft := connected_link new_tft_serial\<rparr>))))
   = [''ok'' @ [newline]]"
  by code_simp

lemma connected_bridge_link:
  "connected_flag (tft ((new_bridge False 2 1)\<lparr>tft := connected_link new_tft_serial\<rparr>))
   \<and> serial_present (tft ((new_bridge False 2 1)\<lparr>tft := connected_link new_tft_serial\<rparr>))
   \<and> written (tft ((new_bridge False 2 1)\<lparr>tft := connected_link new_tft_serial\<rparr>)) = []
   \<and> serial_write host_down
        (write_count (tft ((new_bridge False 2 1)\<lparr>tft := connected_link new_tft_serial\<rparr>)))
        (''ok'' @ [newline]) = Done"
  by (simp add: connected_link_def new_tft_serial_def host_down_def)

text \<open>
  C1.  Whatever the collaborators of the bridge do, raising included,
  \<open>process_gcode\<close> returns and raises nothing.  When its \<open>try\<close> block raises, the
  handler calls \<open>write_line("ok")\<close> on the link in the state the failure left, and
  a failure of that call is dropped.  For a command that is not recognised the bridge
  hands the link exactly the reply \<open>ok\<close>: the link after the call is the link after
  \<open>write_line("ok")\<close>, nothing but the line \<open>ok\<close> can have been written, and it has
  been written when the link is connected and the device takes the write.
\<close>

theorem process_gcode_always_answers:
  "(\<exists>s'. process_gcode_with col e gcode s = (Inr (), s'))
   \<and> (process_gcode_try col e gcode s = (Inl err, s1) \<longrightarrow>
        process_gcode_with col e gcode s = (Inr (), snd (tft_write_line col ''ok'' s1)))
   \<and> (unrecognized (strip gcode) \<longrightarrow>
        fst (process_gcode e gcode b) = Inr ()
        \<and> tft (snd (process_gcode e gcode b)) = snd (write_line e ''ok'' (tft b))
        \<and> (written (tft (snd (process_gcode e gcode b))) = written (tft b)
            \<or> written (tft (snd (process_gcode e gcode b))) = written (tft b) @ [''ok'' @ [newline]]))
   \<and> (unrecognized (strip gcode) \<and> connected_flag (tft b) \<and> serial_present (tft b)
        \<and> serial_write e (write_count (tft b)) (''ok'' @ [newline]) = Done \<longrightarrow>
        written (tft (snd (process_gcode e gcode b))) = written (tft b) @ [''ok'' @ [newline]])"
proof (intro conjI impI)
  show "\<exists>s'. process_gcode_with col e gcode s = (Inr (), s')"
    unfolding process_gcode_with_def by (rule handler_returns)
next
  assume "process_gcode_try col e gcode s = (Inl err, s1)"
  then show "process_gcode_with col e gcode s = (Inr (), snd (tft_write_line col ''ok'' s1))"
    by (rule handler_acknowledges)
next
  assume u: "unrecognized (strip gcode)"
  show "fst (process_gcode e gcode b) = Inr ()"
    by (simp add: process_unrecognized [OF u])
  show t: "tft (snd (process_gcode e gcode b)) = snd (write_line e ''ok'' (tft b))"
    by (simp add: process_unrecognized [OF u])
  show "written (tft (snd (process_gcode e gcode b))) = written (tft b)
        \<or> written (tft (snd (process_gcode e gcode b))) = written (tft b) @ [''ok'' @ [newline]]"
    using write_line_written [of e "''ok''" "tft b"] by (simp add: t)
next
  assume a: "unrecognized (strip gcode) \<and> connected_flag (tft b) \<and> serial_present (tft b)
        \<and> serial_write e (write_count (tft b)) (''ok'' @ [newline]) = Done"
  then have "tft (snd (process_gcode e gcode b)) = snd (write_line e ''ok'' (tft b))"
    by (simp add: process_unrecognized)
  with a show "written (tft (snd (process_gcode e gcode b))) = written (tft b) @ [''ok'' @ [newline]]"
    by (simp add: write_line_done)
qed

theorem process_gcode_always_answers_witness:
  "process_gcode_try (with_failing_translator (bridge_collaborators host_down False)) host_down
     ''M999 S1'' ((new_bridge False 2 1)\<lparr>tft := connected_link new_tft_serial\<rparr>)
   = (Inl (Raised OtherException ''translator failed''),
      (new_bridge False 2 1)\<lparr>tft := connected_link new_tft_serial\<rparr>)
   \<and> fst (process_gcode_with (with_failing_translator (bridge_collaborators host_down False))
            host_down ''M999 S1'' ((new_bridge False 2 1)\<lparr>tft := connected_link new_tft_serial\<rparr>))
       = Inr ()
   \<and> written (tft (snd (process_gcode_with
            (with_failing_translator (bridge_collaborators host_down False))
            host_down ''M999 S1'' ((new_bridge False 2 1)\<lparr>tft := connected_link new_tft_serial\<rparr>))))
       = [''ok'' @ [newline]]
   \<and> unrecognized (strip ''M999 S1'')
   \<and> fst (process_gcode host_down ''M999 S1''
            ((new_bridge False 2 1)\<lparr>tft := connected_link new_tft_serial\<rparr>)) = Inr ()
   \<and> written (tft (snd (process_gcode host_down ''M999 S1''
            ((new_bridge False 2 1)\<lparr>tft := connected_link new_tft_serial\<rparr>))))
       = [''ok'' @ [newline]]"
proof -
  let ?col = "with_failing_translator (bridge_collaborators host_down False)"
  let ?b = "(new_bridge False 2 1)\<lparr>tft := connected_link new_tft_serial\<rparr>"
  note t = process_gcode_always_answers [of ?col host_down "''M999 S1''" ?b
      "Raised OtherException ''translator failed''" ?b ?b]
  note r = failing_translator_raises
  note u = m999_unrecognized
  note l = connected_bridge_link
  from t r have 1: "process_gcode_with ?col host_down ''M999 S1'' ?b
                     = (Inr (), snd (tft_write_line ?col ''ok'' ?b))"
    by blast
  from t u have 2: "fst (process_gcode host_down ''M999 S1'' ?b) = Inr ()"
    by blast
  from t u l have 3: "written (tft (snd (process_gcode host_down ''M999 S1'' ?b)))
                       = written (tft ?b) @ [''ok'' @ [newline]]"
    by blast
  have 4: "fst (process_gcode_with ?col host_down ''M999 S1'' ?b) = Inr ()"
    by (simp only: 1 fst_conv)
  have 5: "written (tft (snd (process_gcode_with ?col host_down ''M999 S1'' ?b))) = [''ok'' @ [newline]]"
    by (simp only: 1 snd_conv failing_translator_ack)
  have 6: "written (tft (snd (process_gcode host_down ''M999 S1'' ?b))) = [''ok'' @ [newline]]"
    using 3 l by simp
  from r 4 5 u 2 6 show ?thesis by (intro conjI)
qed

end
